theory Spec2Isabelle
  imports Main "HOL-Library.Word" "HOL-Library.AList"
begin

section \<open>Data model of sync.go\<close>

text \<open>
  The cloud synchronisation of the repository (sync.go): its functions as functions of
  HOL, with the remote object store, the local store, the codecs and the rest of the
  repository as parameters that answer every request with a value or an error. What a
  function does to the world outside is a list of effects that it returns. The traffic
  counters, the events published and the log are left out.

  The Go type \<open>int64\<close> is a 64-bit word read as two's complement: \<open>+\<close> and \<open>-\<close> wrap
  around, \<open><s\<close> and \<open>\<le>s\<close> are the signed comparisons of Go's \<open><\<close> and \<open><=\<close>.
\<close>

type_synonym int64 = "64 word"

text \<open>\<open>entity.File\<close>: the manifest of one file of a snapshot.\<close>

record File =
  ID :: string
  Path :: string
  Size :: int64
  Updated :: int64
  Chunks :: "string list"

text \<open>\<open>MergeResult\<close>; the field \<open>Time\<close> only names directories and is left out.\<close>

record MergeResult =
  Upserts :: "File list"
  Removes :: "File list"
  Conflicts :: "File list"

definition DataChanged :: "MergeResult \<Rightarrow> bool" where
  "DataChanged mr \<longleftrightarrow>
     0 < length (Upserts mr) \<or> 0 < length (Removes mr) \<or> 0 < length (Conflicts mr)"

section \<open>Library functions used by the code\<close>

text \<open>\<open>gulu.Str.Contains(s, list)\<close>: membership of a string in a slice.\<close>

definition Str_Contains :: "string \<Rightarrow> string list \<Rightarrow> bool" where
  "Str_Contains s xs \<longleftrightarrow> s \<in> set xs"

text \<open>\<open>strings.HasSuffix\<close>, \<open>strings.HasPrefix\<close> and \<open>strings.TrimPrefix\<close>, on bytes.\<close>

definition HasSuffix :: "string \<Rightarrow> string \<Rightarrow> bool" where
  "HasSuffix s suffix \<longleftrightarrow>
     length suffix \<le> length s \<and> drop (length s - length suffix) s = suffix"

definition HasPrefix :: "string \<Rightarrow> string \<Rightarrow> bool" where
  "HasPrefix s prefix \<longleftrightarrow> length prefix \<le> length s \<and> take (length prefix) s = prefix"

definition TrimPrefix :: "string \<Rightarrow> string \<Rightarrow> string" where
  "TrimPrefix s prefix = (if HasPrefix s prefix then drop (length prefix) s else s)"

section \<open>Looking a file up in a list\<close>

text \<open>\<open>getFile\<close>: the first element with the same id or the same path, \<open>nil\<close> when none.\<close>

fun getFile :: "File list \<Rightarrow> File \<Rightarrow> File option" where
  "getFile [] file = None"
| "getFile (f # files) file =
     (if File.ID f = File.ID file \<or> Path f = Path file then Some f else getFile files file)"

section \<open>The skew guard: filterLocalUpserts\<close>

text \<open>
  The first loop of \<open>filterLocalUpserts\<close> fills \<open>cloudUpsertsMap\<close>; a later cloud upsert
  with the same path overwrites an earlier one.
\<close>

definition cloudUpsertsMap :: "File list \<Rightarrow> (string \<rightharpoonup> File)" where
  "cloudUpsertsMap cloudUpserts = foldl (\<lambda>m c. m(Path c \<mapsto> c)) Map.empty cloudUpserts"

text \<open>
  The second loop collects the paths of the local upserts that are older than the cloud
  upsert of the same path by more than \<open>1000*60*7\<close> milliseconds (in \<open>int64\<close> arithmetic).
\<close>

definition toRemoveLocalUpsertPaths :: "File list \<Rightarrow> File list \<Rightarrow> string list" where
  "toRemoveLocalUpsertPaths localUpserts cloudUpserts =
     map Path
       (filter (\<lambda>localUpsert.
                  case cloudUpsertsMap cloudUpserts (Path localUpsert) of
                    None \<Rightarrow> False
                  | Some cloudUpsert \<Rightarrow>
                      Updated localUpsert <s Updated cloudUpsert - 1000 * 60 * 7)
          localUpserts)"

definition filterLocalUpserts :: "File list \<Rightarrow> File list \<Rightarrow> File list" where
  "filterLocalUpserts localUpserts cloudUpserts =
     filter (\<lambda>localUpsert.
               \<not> Str_Contains (Path localUpsert)
                    (toRemoveLocalUpsertPaths localUpserts cloudUpserts))
       localUpserts"

section \<open>Errors, directories and the repository's collaborators\<close>

text \<open>
  The error values of sync.go, \<open>cloud.ErrCloudObjectNotFound\<close>, an \<open>*os.PathError\<close>
  (its path, and whether it is a "no such file or directory" error), and any other error.
\<close>

datatype error =
    ErrCloudStorageSizeExceeded
  | ErrCloudBackupCountExceeded
  | ErrCloudGenerateConflictHistory
  | ErrCloudObjectNotFound
  | ErrRepoFatal
  | ErrNotFoundObject
  | PathError string bool
  | OtherError string

text \<open>
  The directories sync.go checks files out to: \<open>repo.DataPath\<close> and the directories
  \<open>ignore\<close>, \<open>conflicts\<close> and \<open>resolves\<close> (the last two named by the time of the sync)
  under \<open>repo.TempPath/repo/sync\<close>.
\<close>

datatype checkoutDir = DataPath | TempSyncIgnore | TempSyncConflicts | TempSyncResolves

text \<open>
  A block of a parsed document (\<open>ast.Node\<close>): its id, its type (only \<open>NodeDocument\<close> is
  told apart), whether it is a block, its content, and its attributes \<open>KramdownIAL\<close> as
  key/value pairs.
\<close>

datatype NodeType = NodeDocument | NodeOther nat

record Node =
  ID :: string
  Type :: NodeType
  IsBlock :: bool
  Content :: string
  KramdownIAL :: "(string \<times> string) list"

text \<open>
  What the merge of sync0 asks of the rest of the repository. \<open>checkoutTree\<close> gives the
  nodes of the parsed document in the order \<open>ast.Walk\<close> enters them (\<open>None\<close> when the
  file cannot be fetched, checked out, read or parsed; the copy it leaves below the
  temporary directory is not recorded); \<open>checkoutFile\<close> and \<open>ReadFile\<close>
  are the checkout of a file to a directory and the read of a path under a directory;
  \<open>CompileIgnoreLines\<close> is the matcher \<open>MatchesPath\<close> of the compiled ignore lines.
\<close>

record Repo =
  checkoutTree :: "File \<Rightarrow> Node list option"
  checkoutFile :: "File \<Rightarrow> checkoutDir \<Rightarrow> error option"
  ReadFile :: "checkoutDir \<Rightarrow> string \<Rightarrow> error + string"
  CompileIgnoreLines :: "string list \<Rightarrow> string \<Rightarrow> bool"

section \<open>The fold-only comparison: ignoreLocalUpsert\<close>

text \<open>
  A Go \<open>map[string]T\<close> that is filled and then read is an association list with distinct
  keys: \<open>AList.update\<close> is the assignment \<open>m[k] = v\<close>, \<open>AList.delete\<close> is \<open>delete(m, k)\<close>,
  \<open>map_of\<close> the lookup and \<open>length\<close> is \<open>len(m)\<close>.
  \<open>parse.IAL2Map\<close> assigns every pair of the attribute list in turn.
\<close>

definition IAL2Map :: "(string \<times> string) list \<Rightarrow> (string \<times> string) list" where
  "IAL2Map ial = foldl (\<lambda>ret kv. AList.update (fst kv) (snd kv) ret) [] ial"

definition onlyChangeFoldIAL :: "Node \<Rightarrow> Node \<Rightarrow> bool" where
  "onlyChangeFoldIAL n1 n2 =
     (if Content n1 \<noteq> Content n2 then False
      else
        let n1Attrs = AList.delete ''updated'' (AList.delete ''heading-fold''
                        (AList.delete ''fold'' (IAL2Map (KramdownIAL n1))));
            n2Attrs = AList.delete ''updated'' (AList.delete ''heading-fold''
                        (AList.delete ''fold'' (IAL2Map (KramdownIAL n2))))
        in if length n1Attrs \<noteq> length n2Attrs then False
           else list_all (\<lambda>kv. case map_of n2Attrs (fst kv) of
                                  None \<Rightarrow> False
                                | Some v2 \<Rightarrow> snd kv = v2) n1Attrs)"

text \<open>
  The map that the callback of \<open>ast.Walk\<close> fills: every block that is not the document
  node, under its id.
\<close>

definition blockNodes :: "Node list \<Rightarrow> (string \<times> Node) list" where
  "blockNodes nodes =
     foldl (\<lambda>m node. if IsBlock node \<and> NodeDocument \<noteq> Type node
                       then AList.update (Node.ID node) node m else m) [] nodes"

definition ignoreLocalUpsert :: "Repo \<Rightarrow> File \<Rightarrow> File list \<Rightarrow> bool" where
  "ignoreLocalUpsert repo localUpsert latestSyncFiles =
     (if \<not> HasSuffix (Path localUpsert) ''.sy'' then False
      else case getFile latestSyncFiles localUpsert of
        None \<Rightarrow> False
      | Some latestSyncFile \<Rightarrow>
          (case checkoutTree repo localUpsert of
             None \<Rightarrow> False
           | Some localTree \<Rightarrow>
               (case checkoutTree repo latestSyncFile of
                  None \<Rightarrow> False
                | Some localLastSyncTree \<Rightarrow>
                    let localNodes = blockNodes localTree;
                        localLastSyncNodes = blockNodes localLastSyncTree
                    in if length localNodes \<noteq> length localLastSyncNodes then False
                       else list_all
                              (\<lambda>entry. case map_of localLastSyncNodes (fst entry) of
                                  None \<Rightarrow> False
                                | Some lastSyncNode \<Rightarrow>
                                    if Node.ID (snd entry) \<noteq> Node.ID lastSyncNode
                                    then False
                                    else if Type (snd entry) \<noteq> Type lastSyncNode
                                    then False
                                    else onlyChangeFoldIAL (snd entry) lastSyncNode)
                              localNodes)))"

section \<open>The merge of sync0\<close>

text \<open>
  The variables the walk over the cloud upserts writes: the merge result, the tentative
  conflicts \<open>tmpMergeConflicts\<close> and the cloud upsert of the syncignore file.
\<close>

record MergeState = MergeResult +
  tmpMergeConflicts :: "File list"
  cloudUpsertIgnore :: "File option"

definition latestFileMap :: "File list \<Rightarrow> (string \<rightharpoonup> File)" where
  "latestFileMap latestFiles = foldl (\<lambda>m file. m(Path file \<mapsto> file)) Map.empty latestFiles"

text \<open>
  \<open>cloudUpsertTooOld\<close>: the file known locally at the path is newer than the cloud upsert
  by more than \<open>7*60*1000\<close> milliseconds; the sum is an \<open>int64\<close> and wraps around.
\<close>

definition cloudUpsertTooOld :: "File list \<Rightarrow> File \<Rightarrow> bool" where
  "cloudUpsertTooOld latestFiles cloudUpsert =
     (case latestFileMap latestFiles (Path cloudUpsert) of
        None \<Rightarrow> False
      | Some localFile \<Rightarrow> Updated cloudUpsert + 7 * 60 * 1000 <s Updated localFile)"

text \<open>One turn of the loop over \<open>cloudUpserts\<close>.\<close>

definition cloudUpsertStep ::
  "Repo \<Rightarrow> string list \<Rightarrow> File list \<Rightarrow> File list \<Rightarrow> File list \<Rightarrow> File list \<Rightarrow>
   MergeState \<Rightarrow> File \<Rightarrow> MergeState" where
  "cloudUpsertStep repo fetchedFileIDs localUpserts localRemoves latestSyncFiles latestFiles
     st0 cloudUpsert =
     (let st = (if ''/.siyuan/syncignore'' = Path cloudUpsert
                then st0\<lparr>cloudUpsertIgnore := Some cloudUpsert\<rparr> else st0)
      in case getFile localUpserts cloudUpsert of
           Some localUpsert \<Rightarrow>
             (let st1 = st\<lparr>tmpMergeConflicts := tmpMergeConflicts st @ [cloudUpsert]\<rparr>
              in if Str_Contains (File.ID cloudUpsert) fetchedFileIDs
                 then if ignoreLocalUpsert repo localUpsert latestSyncFiles
                      then st1\<lparr>Upserts := Upserts st1 @ [cloudUpsert]\<rparr>
                      else st1\<lparr>Conflicts := Conflicts st1 @ [cloudUpsert]\<rparr>
                 else st1)
         | None \<Rightarrow>
             (case getFile localRemoves cloudUpsert of
                None \<Rightarrow>
                  if HasSuffix (Path cloudUpsert) ''.tmp'' then st
                  else if cloudUpsertTooOld latestFiles cloudUpsert then st
                  else st\<lparr>Upserts := Upserts st @ [cloudUpsert]\<rparr>
              | Some localRemove \<Rightarrow> st))"

definition cloudUpsertsWalk ::
  "Repo \<Rightarrow> string list \<Rightarrow> File list \<Rightarrow> File list \<Rightarrow> File list \<Rightarrow> File list \<Rightarrow>
   MergeState \<Rightarrow> File list \<Rightarrow> MergeState" where
  "cloudUpsertsWalk repo fetchedFileIDs localUpserts localRemoves latestSyncFiles latestFiles
     st cloudUpserts =
     foldl (cloudUpsertStep repo fetchedFileIDs localUpserts localRemoves latestSyncFiles
              latestFiles) st cloudUpserts"

text \<open>The loop over \<open>cloudRemoves\<close>: a local upsert of the file keeps it.\<close>

definition cloudRemovesWalk :: "File list \<Rightarrow> MergeState \<Rightarrow> File list \<Rightarrow> MergeState" where
  "cloudRemovesWalk localUpserts st cloudRemoves =
     foldl (\<lambda>s cloudRemove. case getFile localUpserts cloudRemove of
                               None \<Rightarrow> s\<lparr>Removes := Removes s @ [cloudRemove]\<rparr>
                             | Some localUpsert \<Rightarrow> s) st cloudRemoves"

text \<open>
  \<open>strings.Split(s, sep)\<close> for a separator of one byte, and
  \<open>strings.ReplaceAll(s, "\r\n", "\n")\<close>.
\<close>

fun Split :: "string \<Rightarrow> char \<Rightarrow> string list" where
  "Split [] sep = [[]]"
| "Split (c # cs) sep =
     (if c = sep then [] # Split cs sep
      else case Split cs sep of
             [] \<Rightarrow> [[c]]
           | p # ps \<Rightarrow> (c # p) # ps)"

fun ReplaceAll_CRLF :: "string \<Rightarrow> string" where
  "ReplaceAll_CRLF (c1 # c2 # cs) =
     (if c1 = CHR 0x0D \<and> c2 = CHR 0x0A then CHR 0x0A # ReplaceAll_CRLF cs
      else c1 # ReplaceAll_CRLF (c2 # cs))"
| "ReplaceAll_CRLF cs = cs"

text \<open>
  The ignore lines: none unless a cloud upsert of \<open>/.siyuan/syncignore\<close> was seen; then
  the file is checked out (to a temporary directory when the local syncignore changed
  too) and read, and a failure of either ends sync0 with that error.
\<close>

definition loadIgnoreLines :: "Repo \<Rightarrow> File option \<Rightarrow> File option \<Rightarrow> error + string list" where
  "loadIgnoreLines repo cloudIgnore localUpsertIgnore =
     (case cloudIgnore of
        None \<Rightarrow> Inr []
      | Some ignoreFile \<Rightarrow>
          (let coDir = (case localUpsertIgnore of None \<Rightarrow> DataPath
                        | Some changed \<Rightarrow> TempSyncIgnore)
           in case checkoutFile repo ignoreFile coDir of
                Some err \<Rightarrow> Inl err
              | None \<Rightarrow>
                  (case ReadFile repo coDir (Path ignoreFile) of
                     Inl readErr \<Rightarrow> Inl readErr
                   | Inr dataStr \<Rightarrow> Inr (Split (ReplaceAll_CRLF dataStr) (CHR 0x0A)))))"

text \<open>
  The merge of sync0, from the skew guard to the filtering of the removes: the result
  is the error of the syncignore checkout, if any, and the state reached.
\<close>

definition sync0_merge ::
  "Repo \<Rightarrow> File list \<Rightarrow> File list \<Rightarrow> File list \<Rightarrow> File list \<Rightarrow> File list \<Rightarrow>
   File list \<Rightarrow> File list \<Rightarrow> MergeResult \<Rightarrow> error option \<times> MergeState" where
  "sync0_merge repo fetchedFiles latestFiles latestSyncFiles localUpserts0 localRemoves
     cloudUpserts cloudRemoves mergeResult =
     (let localUpserts = filterLocalUpserts localUpserts0 cloudUpserts;
          localUpsertIgnore = find (\<lambda>upsert. ''/.siyuan/syncignore'' = Path upsert) localUpserts;
          fetchedFileIDs = map File.ID fetchedFiles;
          st0 = \<lparr>Upserts = Upserts mergeResult, Removes = Removes mergeResult,
                 Conflicts = Conflicts mergeResult,
                 tmpMergeConflicts = [], cloudUpsertIgnore = None\<rparr>;
          st1 = cloudUpsertsWalk repo fetchedFileIDs localUpserts localRemoves latestSyncFiles
                  latestFiles st0 cloudUpserts;
          st2 = cloudRemovesWalk localUpserts st1 cloudRemoves
      in case loadIgnoreLines repo (cloudUpsertIgnore st2) localUpsertIgnore of
           Inl err \<Rightarrow> (Some err, st2)
         | Inr ignoreLines \<Rightarrow>
             (None, st2\<lparr>Removes :=
                filter (\<lambda>remove. \<not> CompileIgnoreLines repo ignoreLines (Path remove))
                  (Removes st2)\<rparr>))"

section \<open>The remote object store, the local store and what they are asked\<close>

text \<open>\<open>entity.Index\<close>, a snapshot, and \<open>cloud.Index\<close>, its entry in \<open>indexes-v2.json\<close>.\<close>

record Index =
  ID :: string
  Memo :: string
  Created :: int64
  Files :: "string list"
  Size :: int64
  SystemID :: string
  SystemName :: string
  SystemOS :: string
  CheckIndexID :: string

definition emptyIndex :: Index where
  "emptyIndex = \<lparr>Index.ID = '''', Memo = '''', Created = 0, Files = [], Size = 0,
                  SystemID = '''', SystemName = '''', SystemOS = '''', CheckIndexID = ''''\<rparr>"

record cloud_Index =
  ID :: string
  SystemID :: string
  SystemName :: string
  SystemOS :: string

text \<open>
  What the code does to the world outside, in the order it does it: the requests to the
  remote object store (by key), the lock of the remote, the writes of a local file, and
  the steps of sync0 that write to the local store and the working tree. The worker
  pools are run one task after the other, in the order of the slice.
\<close>

datatype effect =
    TryLockCloud
  | UnlockCloud
  | CloudDownload string
  | CloudList string
  | CloudRemove string
  | CloudUpload string
  | WriteFile string string
  | StorePutFile string
  | StorePutChunk string
  | UploadCloud
  | RestoreFiles
  | MergeSync
  | AddTraffic
  | RemoveEmptyDirs

text \<open>
  \<open>repo.cloud\<close>, the remote object store: every request answers with a value or an error;
  \<open>UploadObject\<close> answers with the length uploaded and an error. \<open>ListObjects\<close> gives the
  paths of the objects below the prefix.
\<close>

record Cloud =
  tryLockCloud :: "error option"
  DownloadObject :: "string \<Rightarrow> error + string"
  ListObjects :: "string \<Rightarrow> error + string list"
  UploadObject :: "string \<Rightarrow> int64 \<times> error option"
  GetAvailableSize :: int64
  isCloudS3 :: bool
  isCloudSiYuan :: bool

text \<open>
  \<open>repo.store\<close> and the codecs: the local latest index, the decoders and the encoder of
  the store, the JSON decoders (what they filled in, and their error) and encoder, the
  safe write of a file below \<open>repo.Path\<close>, and \<open>Stat\<close> of an object (\<open>None\<close> when it is
  there), and \<open>GetFile\<close> of a file id.
\<close>

record Store =
  Latest :: "error + Index"
  Stat :: "string \<Rightarrow> error option"
  decodeData :: "string \<Rightarrow> error + string"
  DecodeAll :: "string \<Rightarrow> error + string"
  EncodeAll :: "string \<Rightarrow> string"
  UnmarshalIndex :: "string \<Rightarrow> Index \<times> error option"
  UnmarshalFile :: "string \<Rightarrow> File \<times> error option"
  UnmarshalIndexes :: "string \<Rightarrow> cloud_Index list \<times> error option"
  MarshalIndentJSON :: "cloud_Index list \<Rightarrow> error + string"
  WriteFileSafer :: "string \<Rightarrow> string \<Rightarrow> error option"
  PutFile :: "File \<Rightarrow> error option"
  PutChunk :: "string \<Rightarrow> string \<Rightarrow> error option"
  GetFile :: "string \<Rightarrow> error + File"

text \<open>
  What sync0 and SyncDownload ask of the rest of the repository beyond the merge: the
  files of a list of ids (\<open>getFiles\<close>), the index of the last sync (\<open>latestSync\<close>, the
  empty index when there is none), the differ \<open>diffUpsertRemove\<close>, the copy of a
  conflict into the history (\<open>genSyncHistory\<close>, by the path of the file), and the errors
  of \<open>uploadCloud\<close> and \<open>mergeSync\<close>.
\<close>

record Sync0Repo = Repo +
  getFiles :: "string list \<Rightarrow> error + File list"
  latestSync :: Index
  diffUpsertRemove :: "File list \<Rightarrow> File list \<Rightarrow> bool \<Rightarrow> File list \<times> File list"
  genSyncHistory :: "string \<Rightarrow> error option"
  uploadCloud :: "Index \<Rightarrow> Index \<Rightarrow> string list \<Rightarrow> error option"
  mergeSync :: "MergeResult \<Rightarrow> bool \<Rightarrow> bool \<Rightarrow> Index \<Rightarrow> Index \<Rightarrow> string list \<Rightarrow> error option"

section \<open>More library functions\<close>

text \<open>\<open>strings.Contains\<close>: the second string occurs in the first.\<close>

fun strings_Contains :: "string \<Rightarrow> string \<Rightarrow> bool" where
  "strings_Contains [] substr = (substr = [])"
| "strings_Contains (c # cs) substr =
     (HasPrefix (c # cs) substr \<or> strings_Contains cs substr)"

text \<open>
  \<open>strings.TrimSpace\<close>: the white space of Unicode is cut from both ends; these are its
  code points in UTF-8.
\<close>

definition unicodeSpaces :: "string list" where
  "unicodeSpaces =
     [[CHR 0x09], [CHR 0x0A], [CHR 0x0B], [CHR 0x0C], [CHR 0x0D], [CHR 0x20],
      [CHR 0xC2, CHR 0x85], [CHR 0xC2, CHR 0xA0], [CHR 0xE1, CHR 0x9A, CHR 0x80],
      [CHR 0xE2, CHR 0x80, CHR 0x80], [CHR 0xE2, CHR 0x80, CHR 0x81],
      [CHR 0xE2, CHR 0x80, CHR 0x82], [CHR 0xE2, CHR 0x80, CHR 0x83],
      [CHR 0xE2, CHR 0x80, CHR 0x84], [CHR 0xE2, CHR 0x80, CHR 0x85],
      [CHR 0xE2, CHR 0x80, CHR 0x86], [CHR 0xE2, CHR 0x80, CHR 0x87],
      [CHR 0xE2, CHR 0x80, CHR 0x88], [CHR 0xE2, CHR 0x80, CHR 0x89],
      [CHR 0xE2, CHR 0x80, CHR 0x8A], [CHR 0xE2, CHR 0x80, CHR 0xA8],
      [CHR 0xE2, CHR 0x80, CHR 0xA9], [CHR 0xE2, CHR 0x80, CHR 0xAF],
      [CHR 0xE2, CHR 0x81, CHR 0x9F], [CHR 0xE3, CHR 0x80, CHR 0x80]]"

function TrimLeftSpace :: "string \<Rightarrow> string" where
  "TrimLeftSpace s =
     (case find (\<lambda>space. HasPrefix s space) unicodeSpaces of
        None \<Rightarrow> s
      | Some space \<Rightarrow> TrimLeftSpace (drop (length space) s))"
  by pat_completeness auto
termination
proof (relation "measure length")
  show "wf (measure length)" by simp
next
  fix s space
  assume "find (\<lambda>space. HasPrefix s space) unicodeSpaces = Some space"
  then have "space \<in> set unicodeSpaces" and "HasPrefix s space"
    by (auto simp add: find_Some_iff)
  then have "space \<noteq> []" and "length space \<le> length s"
    by (auto simp add: unicodeSpaces_def HasPrefix_def)
  then show "(drop (length space) s, s) \<in> measure length"
    by (cases space) auto
qed

declare TrimLeftSpace.simps [simp del]

function TrimRightSpace :: "string \<Rightarrow> string" where
  "TrimRightSpace s =
     (case find (\<lambda>space. HasSuffix s space) unicodeSpaces of
        None \<Rightarrow> s
      | Some space \<Rightarrow> TrimRightSpace (take (length s - length space) s))"
  by pat_completeness auto
termination
proof (relation "measure length")
  show "wf (measure length)" by simp
next
  fix s space
  assume "find (\<lambda>space. HasSuffix s space) unicodeSpaces = Some space"
  then have "space \<in> set unicodeSpaces" and "HasSuffix s space"
    by (auto simp add: find_Some_iff)
  then have "space \<noteq> []" and "length space \<le> length s"
    by (auto simp add: unicodeSpaces_def HasSuffix_def)
  then show "(take (length s - length space) s, s) \<in> measure length"
    by (cases space) auto
qed

declare TrimRightSpace.simps [simp del]

definition TrimSpace :: "string \<Rightarrow> string" where
  "TrimSpace s = TrimRightSpace (TrimLeftSpace s)"

text \<open>
  \<open>strconv.Atoi\<close> with its error dropped, where \<open>int\<close> has 64 bits: an optional sign and
  decimal digits; 0 on a syntax error, the nearest bound when out of range.
\<close>

definition isDigit :: "char \<Rightarrow> bool" where
  "isDigit c \<longleftrightarrow> 48 \<le> (of_char c :: nat) \<and> (of_char c :: nat) \<le> 57"

definition Atoi :: "string \<Rightarrow> int" where
  "Atoi s =
     (let neg = (case s of [] \<Rightarrow> False | c # cs \<Rightarrow> c = CHR ''-'');
          digits = (case s of [] \<Rightarrow> []
                    | c # cs \<Rightarrow> if c = CHR ''-'' \<or> c = CHR ''+'' then cs else s)
      in if digits = [] then 0
         else if list_all isDigit digits
         then let n = foldl (\<lambda>a c. a * 10 + (of_char c - 48)) 0 digits
              in if neg then max (- (2 ^ 63)) (- n) else min (2 ^ 63 - 1) n
         else 0)"

text \<open>\<open>path.Join\<close> of two elements that are clean already (a directory and a hash).\<close>

definition path_Join :: "string \<Rightarrow> string \<Rightarrow> string" where
  "path_Join dir name = dir @ ''/'' @ name"

text \<open>\<open>int64(len(data))\<close>.\<close>

definition len64 :: "string \<Rightarrow> int64" where
  "len64 data = of_nat (length data)"

section \<open>Downloading the cloud latest\<close>

text \<open>
  \<open>decodeDownloadedData\<close> and \<open>downloadCloudObject\<close>: the object codec for a key that
  contains \<open>objects\<close>, decompression for one that contains \<open>indexes\<close>, the bytes as they
  are otherwise.
\<close>

definition decodeDownloadedData :: "Store \<Rightarrow> string \<Rightarrow> string \<Rightarrow> error + string" where
  "decodeDownloadedData store key data =
     (if strings_Contains key ''objects'' then decodeData store data
      else if strings_Contains key ''indexes'' then DecodeAll store data
      else Inr data)"

definition downloadCloudObject :: "Cloud \<Rightarrow> Store \<Rightarrow> string \<Rightarrow> error + string" where
  "downloadCloudObject cloud store filePath =
     (case DownloadObject cloud filePath of
        Inl err \<Rightarrow> Inl err
      | Inr data \<Rightarrow> decodeDownloadedData store filePath data)"

text \<open>
  \<open>downloadCloudIndex\<close>: the bytes counted, the index (empty when the download failed,
  what the JSON decoder filled in otherwise) and the error.
\<close>

definition downloadCloudIndex ::
  "Cloud \<Rightarrow> Store \<Rightarrow> string \<Rightarrow> int64 \<times> Index \<times> error option" where
  "downloadCloudIndex cloud store id' =
     (case downloadCloudObject cloud store (path_Join ''indexes'' id') of
        Inl err \<Rightarrow> (0, emptyIndex, Some err)
      | Inr data \<Rightarrow>
          (case UnmarshalIndex store data of
             (index, Some err) \<Rightarrow> (0, index, Some err)
           | (index, None) \<Rightarrow> (len64 data, index, None)))"

text \<open>
  \<open>getSeqNumLatest\<close>: the named results \<open>id\<close> (here \<open>id'\<close>), \<open>maxSeqNum\<close> and
  \<open>seqNumLatests\<close>, and the objects the scan removes from the remote.
\<close>

record SeqNumLatest =
  id' :: string
  maxSeqNum :: int
  seqNumLatests :: "string list"
  removed :: "string list"

definition getSeqNumLatest_ref :: "SeqNumLatest \<Rightarrow> string \<Rightarrow> SeqNumLatest" where
  "getSeqNumLatest_ref r refPath =
     (if \<not> HasPrefix refPath ''latest-'' then r
      else case Split (TrimPrefix refPath ''latest-'') (CHR ''-'') of
             part0 # part1 # parts \<Rightarrow>
               (let seqNum = Atoi part0;
                    r1 = (if maxSeqNum r < seqNum
                          then r\<lparr>maxSeqNum := seqNum, id' := part1\<rparr> else r)
                in r1\<lparr>seqNumLatests := seqNumLatests r1 @ [''refs/'' @ refPath]\<rparr>)
           | parts \<Rightarrow> r\<lparr>removed := removed r @ [''refs/'' @ refPath]\<rparr>)"

definition getSeqNumLatest :: "Cloud \<Rightarrow> SeqNumLatest" where
  "getSeqNumLatest cloud =
     (case ListObjects cloud ''refs/'' of
        Inl listErr \<Rightarrow> \<lparr>id' = '''', maxSeqNum = 0, seqNumLatests = [], removed = []\<rparr>
      | Inr refs \<Rightarrow>
          foldl getSeqNumLatest_ref
            \<lparr>id' = '''', maxSeqNum = 0, seqNumLatests = [], removed = []\<rparr> refs)"

text \<open>The requests of \<open>getSeqNumLatest\<close>: the listing, then the removals.\<close>

definition getSeqNumLatest_effects :: "Cloud \<Rightarrow> effect list" where
  "getSeqNumLatest_effects cloud =
     CloudList ''refs/'' # map CloudRemove (removed (getSeqNumLatest cloud))"

text \<open>
  \<open>downloadCloudLatest\<close>: the bytes counted, the index, the error and the requests made.
  The two goroutines (the download of the index that \<open>refs/latest\<close> names and the scan of
  the seq-num pointers) are run one after the other.
\<close>

definition downloadCloudLatest ::
  "Cloud \<Rightarrow> Store \<Rightarrow> int64 \<times> Index \<times> error option \<times> effect list" where
  "downloadCloudLatest cloud store =
     (case downloadCloudObject cloud store ''refs/latest'' of
        Inl err \<Rightarrow>
          if err = ErrCloudObjectNotFound
          then (0, emptyIndex, None, [CloudDownload ''refs/latest''])
          else (0, emptyIndex, Some err, [CloudDownload ''refs/latest''])
      | Inr data \<Rightarrow>
          (let latestID = TrimSpace data
           in if 40 \<noteq> length latestID
              then (0, emptyIndex, Some ErrCloudObjectNotFound, [CloudDownload ''refs/latest''])
              else
                (let isS3OrSiYuan = (isCloudS3 cloud \<or> isCloudSiYuan cloud);
                     seqNumLatestID = (if isS3OrSiYuan then id' (getSeqNumLatest cloud) else '''');
                     effects = [CloudDownload ''refs/latest'',
                                CloudDownload (path_Join ''indexes'' latestID)]
                               @ (if isS3OrSiYuan then getSeqNumLatest_effects cloud else [])
                 in case downloadCloudIndex cloud store latestID of
                      (downloadBytes, index, err) \<Rightarrow>
                        if isS3OrSiYuan \<and> '''' \<noteq> seqNumLatestID \<and> '''' \<noteq> Index.ID index
                           \<and> latestID \<noteq> seqNumLatestID
                        then
                          (case downloadCloudIndex cloud store seqNumLatestID of
                             (n, seqNumLatest, Some downloadErr) \<Rightarrow>
                               (downloadBytes, index, err,
                                effects @ [CloudDownload (path_Join ''indexes'' seqNumLatestID)])
                           | (n, seqNumLatest, None) \<Rightarrow>
                               (downloadBytes,
                                if Created index <s Created seqNumLatest
                                then seqNumLatest else index,
                                err,
                                effects @ [CloudDownload (path_Join ''indexes'' seqNumLatestID)]))
                        else (downloadBytes, index, err, effects))))"

section \<open>Updating indexes-v2.json\<close>

text \<open>
  The loop of \<open>updateCloudIndexesV2\<close> over the downloaded entries: \<open>found\<close>, the entries
  kept in \<open>tmp.Indexes\<close>, and the ids \<open>added\<close>.
\<close>

definition dedupIndexes ::
  "string \<Rightarrow> cloud_Index list \<Rightarrow> bool \<times> cloud_Index list \<times> string list" where
  "dedupIndexes latestID indexes =
     foldl (\<lambda>(found, tmp, added) index.
              (found \<or> cloud_Index.ID index = latestID,
               if cloud_Index.ID index \<in> set added then tmp else tmp @ [index],
               if cloud_Index.ID index \<in> set added then added
               else cloud_Index.ID index # added))
       (False, [], []) indexes"

text \<open>
  \<open>updateCloudIndexesV2\<close>: \<open>downloadBytes\<close>, \<open>uploadBytes\<close>, the error and what was done.
  A download that fails gives no data.
\<close>

definition updateCloudIndexesV2 ::
  "Cloud \<Rightarrow> Store \<Rightarrow> Index \<Rightarrow> int64 \<times> int64 \<times> error option \<times> effect list" where
  "updateCloudIndexesV2 cloud store latest =
     (let downloaded = DownloadObject cloud ''indexes-v2.json'';
          effects = [CloudDownload ''indexes-v2.json'']
      in if (case downloaded of Inl err \<Rightarrow> err \<noteq> ErrCloudObjectNotFound | Inr data \<Rightarrow> False)
         then (0, 0, (case downloaded of Inl err \<Rightarrow> Some err | Inr data \<Rightarrow> None), effects)
         else
           (let data0 = (case downloaded of Inl err \<Rightarrow> [] | Inr data \<Rightarrow> data);
                downloadBytes = len64 data0
            in case DecodeAll store data0 of
                 Inl err \<Rightarrow> (downloadBytes, 0, Some err, effects)
               | Inr data \<Rightarrow>
                   (let unmarshalled =
                          (if 0 < length data then UnmarshalIndexes store data else ([], None));
                        dedup = dedupIndexes (Index.ID latest) (fst unmarshalled)
                    in if 0 < length data \<and> fst dedup
                       then (downloadBytes, 0, snd unmarshalled, effects)
                       else
                         (let indexes =
                                \<lparr>cloud_Index.ID = Index.ID latest,
                                  SystemID = Index.SystemID latest,
                                  SystemName = Index.SystemName latest,
                                  SystemOS = Index.SystemOS latest\<rparr>
                                # (if 0 < length data then fst (snd dedup) else [])
                          in case MarshalIndentJSON store indexes of
                               Inl err \<Rightarrow> (downloadBytes, 0, Some err, effects)
                             | Inr marshalled \<Rightarrow>
                                 (let encoded = EncodeAll store marshalled
                                  in case WriteFileSafer store ''indexes-v2.json'' encoded of
                                       Some err \<Rightarrow> (downloadBytes, 0, Some err, effects)
                                     | None \<Rightarrow>
                                         (case UploadObject cloud ''indexes-v2.json'' of
                                            (uploadBytes, err) \<Rightarrow>
                                              (downloadBytes, uploadBytes, err,
                                               effects @ [WriteFile ''indexes-v2.json'' encoded,
                                                          CloudUpload ''indexes-v2.json''])))))))"

section \<open>Fetching what the local store lacks\<close>

text \<open>
  \<open>gulu.Str.RemoveDuplicatedElem\<close> keeps the first occurrence of every element.
  \<open>isNoSuchFileOrDirErr\<close> holds of a path error that says so.
\<close>

fun RemoveDuplicatedElem :: "string list \<Rightarrow> string list" where
  "RemoveDuplicatedElem [] = []"
| "RemoveDuplicatedElem (x # xs) = x # filter (\<lambda>y. y \<noteq> x) (RemoveDuplicatedElem xs)"

fun isNoSuchFileOrDirErr :: "error \<Rightarrow> bool" where
  "isNoSuchFileOrDirErr (PathError p noSuchFile) = noSuchFile"
| "isNoSuchFileOrDirErr err = False"

text \<open>
  \<open>localNotFoundFiles\<close> and \<open>localNotFoundChunks\<close> run the same loop: the ids that the
  store does not have, or the first other error of \<open>Stat\<close>.
\<close>

fun notFoundLoop :: "Store \<Rightarrow> string list \<Rightarrow> string list \<Rightarrow> error + string list" where
  "notFoundLoop store ret [] = Inr (RemoveDuplicatedElem ret)"
| "notFoundLoop store ret (objectID # ids) =
     (case Stat store objectID of
        None \<Rightarrow> notFoundLoop store ret ids
      | Some statErr \<Rightarrow>
          if isNoSuchFileOrDirErr statErr then notFoundLoop store (ret @ [objectID]) ids
          else Inl statErr)"

definition localNotFoundFiles :: "Store \<Rightarrow> string list \<Rightarrow> error + string list" where
  "localNotFoundFiles store fileIDs = notFoundLoop store [] fileIDs"

definition localNotFoundChunks :: "Store \<Rightarrow> string list \<Rightarrow> error + string list" where
  "localNotFoundChunks store chunkIDs = notFoundLoop store [] chunkIDs"

definition getChunks :: "File list \<Rightarrow> string list" where
  "getChunks files = RemoveDuplicatedElem (concat (map Chunks files))"

text \<open>
  The key of a data object, \<open>path.Join("objects", id[:2], id[2:])\<close>, for an id of two
  characters or more (the ids are hashes of 40 characters).
\<close>

definition objectKey :: "string \<Rightarrow> string" where
  "objectKey objectID =
     path_Join (path_Join ''objects'' (take 2 objectID)) (drop 2 objectID)"

text \<open>
  \<open>downloadCloudFilesPut\<close> and \<open>downloadCloudChunksPut\<close>, the tasks of the pool run in the
  order of the ids, up to the first error: the files put into the store, the error, and
  the requests made.
\<close>

fun downloadCloudFilesPut ::
  "Cloud \<Rightarrow> Store \<Rightarrow> string list \<Rightarrow> File list \<times> error option \<times> effect list" where
  "downloadCloudFilesPut cloud store [] = ([], None, [])"
| "downloadCloudFilesPut cloud store (fileID # fileIDs) =
     (case downloadCloudObject cloud store (objectKey fileID) of
        Inl err \<Rightarrow> ([], Some err, [CloudDownload (objectKey fileID)])
      | Inr data \<Rightarrow>
          (case UnmarshalFile store data of
             (file, Some err) \<Rightarrow> ([], Some err, [CloudDownload (objectKey fileID)])
           | (file, None) \<Rightarrow>
               (case PutFile store file of
                  Some pfErr \<Rightarrow> ([], Some pfErr, [CloudDownload (objectKey fileID)])
                | None \<Rightarrow>
                    (case downloadCloudFilesPut cloud store fileIDs of
                       (ret, err, effects) \<Rightarrow>
                         (file # ret, err,
                          [CloudDownload (objectKey fileID), StorePutFile (File.ID file)]
                          @ effects)))))"

fun downloadCloudChunksPut :: "Cloud \<Rightarrow> Store \<Rightarrow> string list \<Rightarrow> error option \<times> effect list" where
  "downloadCloudChunksPut cloud store [] = (None, [])"
| "downloadCloudChunksPut cloud store (chunkID # chunkIDs) =
     (case downloadCloudObject cloud store (objectKey chunkID) of
        Inl err \<Rightarrow> (Some err, [CloudDownload (objectKey chunkID)])
      | Inr data \<Rightarrow>
          (case PutChunk store chunkID data of
             Some pcErr \<Rightarrow> (Some pcErr, [CloudDownload (objectKey chunkID)])
           | None \<Rightarrow>
               (case downloadCloudChunksPut cloud store chunkIDs of
                  (err, effects) \<Rightarrow>
                    (err, [CloudDownload (objectKey chunkID), StorePutChunk chunkID]
                          @ effects))))"

section \<open>sync0, sync and Sync\<close>

text \<open>
  The copies of the tentative conflicts into the history: the first error of fetching
  or checking out ends the loop with it, a failed copy with
  \<open>ErrCloudGenerateConflictHistory\<close>.
\<close>

fun conflictHistory :: "Store \<Rightarrow> Sync0Repo \<Rightarrow> File list \<Rightarrow> error option" where
  "conflictHistory store repo [] = None"
| "conflictHistory store repo (file # files) =
     (case GetFile store (File.ID file) of
        Inl err \<Rightarrow> Some err
      | Inr checkoutTmp \<Rightarrow>
          (case checkoutFile repo checkoutTmp TempSyncConflicts of
             Some err \<Rightarrow> Some err
           | None \<Rightarrow>
               (case genSyncHistory repo (Path file) of
                  Some err \<Rightarrow> Some ErrCloudGenerateConflictHistory
                | None \<Rightarrow> conflictHistory store repo files)))"

text \<open>
  \<open>sync0\<close>: the error, the merge state and what was done. The two goroutines (the
  download of the missing chunks and the upload of the local changes) are run one after
  the other, and the error of the download comes first in \<open>errs\<close>. \<open>uploadCloud\<close>,
  \<open>restoreFiles\<close> and \<open>mergeSync\<close> are parameters: their error, and a mark among the
  effects.
\<close>

definition sync0 ::
  "Cloud \<Rightarrow> Store \<Rightarrow> Sync0Repo \<Rightarrow> File list \<Rightarrow> Index \<Rightarrow> Index \<Rightarrow> MergeResult \<Rightarrow>
   error option \<times> MergeState \<times> effect list" where
  "sync0 cloud store repo fetchedFiles cloudLatest latest mergeResult =
     (let st0 = \<lparr>Upserts = Upserts mergeResult, Removes = Removes mergeResult,
                 Conflicts = Conflicts mergeResult,
                 tmpMergeConflicts = [], cloudUpsertIgnore = None\<rparr>
      in case getFiles repo (Files cloudLatest) of
           Inl err \<Rightarrow> (Some err, st0, [])
         | Inr cloudLatestFiles \<Rightarrow>
             (let cloudChunkIDs = getChunks cloudLatestFiles;
                  download = (case localNotFoundChunks store cloudChunkIDs of
                                Inl downloadErr \<Rightarrow> (Some downloadErr, [])
                              | Inr fetchChunkIDs \<Rightarrow>
                                  downloadCloudChunksPut cloud store fetchChunkIDs);
                  uploadErr = uploadCloud repo latest cloudLatest cloudChunkIDs;
                  effects = snd download @ [UploadCloud];
                  errs = (case fst download of None \<Rightarrow> [] | Some err \<Rightarrow> [err])
                         @ (case uploadErr of None \<Rightarrow> [] | Some err \<Rightarrow> [err])
              in case errs of
                   err # others \<Rightarrow> (Some err, st0, effects)
                 | [] \<Rightarrow>
                     (case getFiles repo (Files latest) of
                        Inl err \<Rightarrow> (Some err, st0, effects)
                      | Inr latestFiles \<Rightarrow>
                          (case getFiles repo (Files (latestSync repo)) of
                             Inl err \<Rightarrow> (Some err, st0, effects)
                           | Inr latestSyncFiles \<Rightarrow>
                               (let localDiff = diffUpsertRemove repo latestFiles latestSyncFiles False;
                                    cloudDiff = (if '''' \<noteq> Index.ID cloudLatest
                                                 then diffUpsertRemove repo cloudLatestFiles latestFiles True
                                                 else ([], []));
                                    localChanged =
                                      (0 < length (filterLocalUpserts (fst localDiff) (fst cloudDiff))
                                       \<or> 0 < length (snd localDiff))
                                in case sync0_merge (Repo.truncate repo) fetchedFiles latestFiles latestSyncFiles
                                          (fst localDiff) (snd localDiff)
                                          (fst cloudDiff) (snd cloudDiff) mergeResult of
                                     (Some err, st) \<Rightarrow> (Some err, st, effects)
                                   | (None, st) \<Rightarrow>
                                       (case conflictHistory store repo (tmpMergeConflicts st) of
                                          Some err \<Rightarrow> (Some err, st, effects)
                                        | None \<Rightarrow>
                                            (case mergeSync repo (MergeResult.truncate st)
                                                    localChanged True latest cloudLatest
                                                    cloudChunkIDs of
                                               Some err \<Rightarrow>
                                                 (Some err, st,
                                                  effects @ [RestoreFiles, MergeSync])
                                             | None \<Rightarrow>
                                                 (None, st,
                                                  effects @ [RestoreFiles, MergeSync,
                                                             AddTraffic, RemoveEmptyDirs]))))))))"

text \<open>\<open>sync\<close>: the merge result, the error and what was done.\<close>

definition sync :: "Cloud \<Rightarrow> Store \<Rightarrow> Sync0Repo \<Rightarrow> MergeResult \<times> error option \<times> effect list" where
  "sync cloud store repo =
     (let mergeResult = \<lparr>Upserts = [], Removes = [], Conflicts = []\<rparr>
      in case Latest store of
           Inl err \<Rightarrow> (mergeResult, Some err, [])
         | Inr latest \<Rightarrow>
             (case downloadCloudLatest cloud store of
                (length0, cloudLatest, err, effects) \<Rightarrow>
                  if err \<noteq> None \<and> err \<noteq> Some ErrCloudObjectNotFound
                  then (mergeResult, err, effects)
                  else if Index.ID cloudLatest = Index.ID latest
                  then (mergeResult, err, effects)
                  else if GetAvailableSize cloud \<le>s Index.Size cloudLatest
                          \<or> GetAvailableSize cloud \<le>s Index.Size latest
                  then (mergeResult, Some ErrCloudStorageSizeExceeded, effects)
                  else
                    (case localNotFoundFiles store (Files cloudLatest) of
                       Inl err1 \<Rightarrow> (mergeResult, Some err1, effects)
                     | Inr fetchFileIDs \<Rightarrow>
                         (case downloadCloudFilesPut cloud store fetchFileIDs of
                            (fetchedFiles, Some err2, effects2) \<Rightarrow>
                              (mergeResult, Some err2, effects @ effects2)
                          | (fetchedFiles, None, effects2) \<Rightarrow>
                              (case sync0 cloud store repo fetchedFiles cloudLatest latest
                                      mergeResult of
                                 (err3, st, effects3) \<Rightarrow>
                                   (MergeResult.truncate st, err3,
                                    effects @ effects2 @ effects3))))))"


section \<open>SyncDownload\<close>

text \<open>
  The part of \<open>SyncDownload\<close> after the missing files are fetched: the chunks, the
  diffs, the conflicts (every local upsert that matches an upsert or a remove of the
  cloud), their history, and the index merge.
\<close>

definition SyncDownload_merge ::
  "Cloud \<Rightarrow> Store \<Rightarrow> Sync0Repo \<Rightarrow> Index \<Rightarrow> Index \<Rightarrow>
   MergeResult \<times> error option \<times> effect list" where
  "SyncDownload_merge cloud store repo cloudLatest latest =
     (let mergeResult = \<lparr>Upserts = [], Removes = [], Conflicts = []\<rparr>
      in case getFiles repo (Files cloudLatest) of
           Inl err \<Rightarrow> (mergeResult, Some err, [])
         | Inr cloudLatestFiles \<Rightarrow>
             (let cloudChunkIDs = getChunks cloudLatestFiles
              in case localNotFoundChunks store cloudChunkIDs of
                   Inl err \<Rightarrow> (mergeResult, Some err, [])
                 | Inr fetchChunkIDs \<Rightarrow>
                     (let effects = snd (downloadCloudChunksPut cloud store fetchChunkIDs)
                      in case getFiles repo (Files latest) of
                           Inl err \<Rightarrow> (mergeResult, Some err, effects)
                         | Inr latestFiles \<Rightarrow>
                             (case getFiles repo (Files (latestSync repo)) of
                                Inl err \<Rightarrow> (mergeResult, Some err, effects)
                              | Inr latestSyncFiles \<Rightarrow>
                                  (let localDiff = diffUpsertRemove repo latestFiles latestSyncFiles False;
                                       localChanged = (0 < length (fst localDiff)
                                                       \<or> 0 < length (snd localDiff));
                                       cloudDiff = diffUpsertRemove repo cloudLatestFiles latestFiles False;
                                       merged =
                                         \<lparr>Upserts = fst cloudDiff, Removes = snd cloudDiff,
                                           Conflicts =
                                             filter (\<lambda>localUpsert.
                                                       getFile (fst cloudDiff) localUpsert \<noteq> None
                                                       \<or> getFile (snd cloudDiff) localUpsert \<noteq> None)
                                               (fst localDiff)\<rparr>
                                   in case conflictHistory store repo (Conflicts merged) of
                                        Some err \<Rightarrow> (merged, Some err, effects)
                                      | None \<Rightarrow>
                                          (case mergeSync repo merged localChanged False latest
                                                  cloudLatest cloudChunkIDs of
                                             Some err \<Rightarrow>
                                               (merged, Some err,
                                                effects @ [RestoreFiles, MergeSync])
                                           | None \<Rightarrow>
                                               (merged, None,
                                                effects @ [RestoreFiles, MergeSync,
                                                           AddTraffic, RemoveEmptyDirs])))))))"

text \<open>
  \<open>SyncDownload\<close>: the merge result, the error and what was done. The error of
  \<open>downloadCloudChunksPut\<close> is overwritten by the next call, as in the code.
\<close>

definition SyncDownload ::
  "Cloud \<Rightarrow> Store \<Rightarrow> Sync0Repo \<Rightarrow> MergeResult option \<times> error option \<times> effect list" where
  "SyncDownload cloud store repo =
     (case tryLockCloud cloud of
        Some err \<Rightarrow> (None, Some err, [TryLockCloud])
      | None \<Rightarrow>
          (let mergeResult = \<lparr>Upserts = [], Removes = [], Conflicts = []\<rparr>
           in case Latest store of
                Inl err \<Rightarrow> (Some mergeResult, Some err, [TryLockCloud, UnlockCloud])
              | Inr latest \<Rightarrow>
                  (case downloadCloudLatest cloud store of
                     (length0, cloudLatest, err, effects) \<Rightarrow>
                       if err \<noteq> None \<and> err \<noteq> Some ErrCloudObjectNotFound
                       then (Some mergeResult, err, [TryLockCloud] @ effects @ [UnlockCloud])
                       else if Index.ID cloudLatest = Index.ID latest \<or> '''' = Index.ID cloudLatest
                       then (Some mergeResult, err, [TryLockCloud] @ effects @ [UnlockCloud])
                       else
                         (case localNotFoundFiles store (Files cloudLatest) of
                            Inl err1 \<Rightarrow>
                              (Some mergeResult, Some err1,
                               [TryLockCloud] @ effects @ [UnlockCloud])
                          | Inr fetchFileIDs \<Rightarrow>
                              (case downloadCloudFilesPut cloud store fetchFileIDs of
                                 (fetchedFiles, Some err2, effects2) \<Rightarrow>
                                   (Some mergeResult, Some err2,
                                    [TryLockCloud] @ effects @ effects2 @ [UnlockCloud])
                               | (fetchedFiles, None, effects2) \<Rightarrow>
                                   (case SyncDownload_merge cloud store repo cloudLatest latest of
                                      (merged, err3, effects3) \<Rightarrow>
                                        (Some merged, err3,
                                         [TryLockCloud] @ effects @ effects2 @ effects3
                                         @ [UnlockCloud])))))))"

section \<open>Example inputs\<close>

text \<open>
  A repository whose document \<open>/doc.sy\<close> differs from the sync base only in the fold
  attribute of a block, whose syncignore file holds the line \<open>/tmp/\<close>, and whose
  ignore matcher matches the paths under a listed directory.
\<close>

definition demo_repo :: Repo where
  "demo_repo =
     \<lparr>checkoutTree = (\<lambda>file.
          if File.ID file = ''l1'' then
            Some [\<lparr>Node.ID = ''d1'', Type = NodeDocument, IsBlock = True, Content = '''',
                    KramdownIAL = [(''id'', ''d1'')]\<rparr>,
                  \<lparr>Node.ID = ''b1'', Type = NodeOther 1, IsBlock = True, Content = ''x'',
                    KramdownIAL = [(''id'', ''b1''), (''fold'', ''1''), (''updated'', ''2'')]\<rparr>]
          else if File.ID file = ''s1'' then
            Some [\<lparr>Node.ID = ''d1'', Type = NodeDocument, IsBlock = True, Content = '''',
                    KramdownIAL = [(''id'', ''d1'')]\<rparr>,
                  \<lparr>Node.ID = ''b1'', Type = NodeOther 1, IsBlock = True, Content = ''x'',
                    KramdownIAL = [(''id'', ''b1''), (''updated'', ''1'')]\<rparr>]
          else None),
       checkoutFile = (\<lambda>file dir. None),
       ReadFile = (\<lambda>dir p. if p = ''/.siyuan/syncignore'' then Inr ''/tmp/'' else Inl (OtherError ''read'')),
       CompileIgnoreLines = (\<lambda>ignoreLines p. ''/tmp/'' \<in> set ignoreLines \<and> HasPrefix p ''/tmp/'')\<rparr>"

definition demo_local :: File where
  "demo_local = \<lparr>File.ID = ''l1'', Path = ''/doc.sy'', Size = 10, Updated = 1000, Chunks = []\<rparr>"

definition demo_base :: File where
  "demo_base = \<lparr>File.ID = ''s1'', Path = ''/doc.sy'', Size = 10, Updated = 500, Chunks = []\<rparr>"

definition demo_cloud :: File where
  "demo_cloud = \<lparr>File.ID = ''c1'', Path = ''/doc.sy'', Size = 10, Updated = 2000, Chunks = []\<rparr>"




definition demo_cloud_far :: File where
  "demo_cloud_far = \<lparr>File.ID = ''c9'', Path = ''/a.md'', Size = 1,
                      Updated = 9223372036854775807, Chunks = []\<rparr>"

definition demo_local_known :: File where
  "demo_local_known = \<lparr>File.ID = ''l9'', Path = ''/a.md'', Size = 1, Updated = 0, Chunks = []\<rparr>"

text \<open>
  A remote of the S3 family whose \<open>refs/latest\<close> names the index A while the seq-num
  pointer of greatest number names the newer index B, with two malformed pointers and
  an \<open>indexes-v2.json\<close> that lists B and A; a store whose codecs leave the bytes as they
  are and whose JSON decoders read one letter per index; a remote whose \<open>refs/latest\<close>
  holds three characters; and a repository with nothing to merge.
\<close>

definition demo_hashA :: string where "demo_hashA = ''aaaaaaaaaaaaaaaaaaaaaaaaaaaaaaaaaaaaaaaa''"

definition demo_hashB :: string where "demo_hashB = ''bbbbbbbbbbbbbbbbbbbbbbbbbbbbbbbbbbbbbbbb''"

definition demo_hashC :: string where "demo_hashC = ''cccccccccccccccccccccccccccccccccccccccc''"

definition demo_indexA :: Index where
  "demo_indexA = emptyIndex\<lparr>Index.ID := demo_hashA, Created := 1000, Size := 10\<rparr>"

definition demo_indexB :: Index where
  "demo_indexB = emptyIndex\<lparr>Index.ID := demo_hashB, Created := 2000, Size := 20\<rparr>"

definition demo_indexC :: Index where
  "demo_indexC = emptyIndex\<lparr>Index.ID := demo_hashC, Created := 3000, Size := 30\<rparr>"

definition demo_entry :: "string \<Rightarrow> cloud_Index" where
  "demo_entry h = \<lparr>cloud_Index.ID = h, SystemID = '''', SystemName = '''', SystemOS = ''''\<rparr>"

definition demo_s3 :: Cloud where
  "demo_s3 =
     \<lparr>tryLockCloud = None,
      DownloadObject = (\<lambda>key.
        if key = ''refs/latest'' then Inr (demo_hashA @ [CHR 0x0A])
        else if key = ''indexes/'' @ demo_hashA then Inr ''A''
        else if key = ''indexes/'' @ demo_hashB then Inr ''B''
        else if key = ''indexes-v2.json'' then Inr ''BA''
        else Inl ErrCloudObjectNotFound),
      ListObjects = (\<lambda>prefix.
        Inr [''latest'', ''latest-sync'', ''latest-1-'' @ demo_hashA,
             ''latest-2-'' @ demo_hashB, ''latest-x'']),
      UploadObject = (\<lambda>key. (7, None)),
      GetAvailableSize = 15,
      isCloudS3 = True,
      isCloudSiYuan = False\<rparr>"

definition demo_store :: Store where
  "demo_store =
     \<lparr>Latest = Inr demo_indexC,
      Stat = (\<lambda>key. None),
      decodeData = (\<lambda>data. Inr data),
      DecodeAll = (\<lambda>data. Inr data),
      EncodeAll = (\<lambda>data. data),
      UnmarshalIndex = (\<lambda>data.
        if data = ''A'' then (demo_indexA, None)
        else if data = ''B'' then (demo_indexB, None)
        else (emptyIndex, Some (OtherError ''json''))),
      UnmarshalFile = (\<lambda>data.
        (\<lparr>File.ID = data, Path = '''', Size = 0, Updated = 0, Chunks = []\<rparr>, None)),
      UnmarshalIndexes = (\<lambda>data. (map (\<lambda>c. demo_entry (if c = CHR ''A'' then demo_hashA
                                                else if c = CHR ''B'' then demo_hashB
                                                else demo_hashC)) data, None)),
      MarshalIndentJSON = (\<lambda>indexes. Inr (map (\<lambda>i. if cloud_Index.ID i = demo_hashA then CHR ''A''
                                                else if cloud_Index.ID i = demo_hashB then CHR ''B''
                                                else CHR ''C'') indexes)),
      WriteFileSafer = (\<lambda>path data. None),
      PutFile = (\<lambda>file. None),
      PutChunk = (\<lambda>chunkID data. None),
      GetFile = (\<lambda>fileID. Inl ErrNotFoundObject)\<rparr>"

definition demo_malformed :: Cloud where
  "demo_malformed = demo_s3\<lparr>DownloadObject := (\<lambda>key.
      if key = ''refs/latest'' then Inr ''abc'' else Inl ErrCloudObjectNotFound)\<rparr>"

definition demo_sync_repo :: Sync0Repo where
  "demo_sync_repo =
     \<lparr>checkoutTree = checkoutTree demo_repo,
      checkoutFile = checkoutFile demo_repo,
      ReadFile = ReadFile demo_repo,
      CompileIgnoreLines = CompileIgnoreLines demo_repo,
      getFiles = (\<lambda>fileIDs. Inr []),
      latestSync = emptyIndex,
      diffUpsertRemove = (\<lambda>files base strict. ([], [])),
      genSyncHistory = (\<lambda>p. None),
      uploadCloud = (\<lambda>latest cloudLatest cloudChunkIDs. None),
      mergeSync = (\<lambda>mergeResult localChanged needSyncCloud latest cloudLatest cloudChunkIDs. None)\<rparr>"



section \<open>Properties of the skew guard\<close>








section \<open>Properties of getFile and of the walks of the merge\<close>

lemma cloudUpsertStep_Upserts:
  "Upserts (cloudUpsertStep repo fids lu lr lsf lf st c) =
     Upserts st @ (if (case getFile lu c of
                         Some l \<Rightarrow> Str_Contains (File.ID c) fids \<and> ignoreLocalUpsert repo l lsf
                       | None \<Rightarrow> getFile lr c = None \<and> \<not> HasSuffix (Path c) ''.tmp''
                                  \<and> \<not> cloudUpsertTooOld lf c)
                   then [c] else [])"
  by (simp add: cloudUpsertStep_def Let_def split: option.splits)

lemma cloudUpsertStep_Conflicts:
  "Conflicts (cloudUpsertStep repo fids lu lr lsf lf st c) =
     Conflicts st @ (if (case getFile lu c of
                         Some l \<Rightarrow> Str_Contains (File.ID c) fids \<and> \<not> ignoreLocalUpsert repo l lsf
                       | None \<Rightarrow> False)
                   then [c] else [])"
  by (simp add: cloudUpsertStep_def Let_def split: option.splits)

lemma cloudUpsertStep_tmp:
  "tmpMergeConflicts (cloudUpsertStep repo fids lu lr lsf lf st c) =
     tmpMergeConflicts st @ (if getFile lu c \<noteq> None then [c] else [])"
  by (simp add: cloudUpsertStep_def Let_def split: option.splits)


lemma cloudUpsertStep_ignore:
  "cloudUpsertIgnore (cloudUpsertStep repo fids lu lr lsf lf st c) =
     (if ''/.siyuan/syncignore'' = Path c then Some c else cloudUpsertIgnore st)"
  by (simp add: cloudUpsertStep_def Let_def split: option.splits)

lemma cloudUpsertsWalk_Upserts:
  "Upserts (cloudUpsertsWalk repo fids lu lr lsf lf st cus) =
     Upserts st @ filter (\<lambda>c. case getFile lu c of
                         Some l \<Rightarrow> Str_Contains (File.ID c) fids \<and> ignoreLocalUpsert repo l lsf
                       | None \<Rightarrow> getFile lr c = None \<and> \<not> HasSuffix (Path c) ''.tmp''
                                  \<and> \<not> cloudUpsertTooOld lf c) cus"
  unfolding cloudUpsertsWalk_def
  by (induction cus arbitrary: st) (simp_all add: cloudUpsertStep_Upserts)

lemma cloudUpsertsWalk_Conflicts:
  "Conflicts (cloudUpsertsWalk repo fids lu lr lsf lf st cus) =
     Conflicts st @ filter (\<lambda>c. case getFile lu c of
                         Some l \<Rightarrow> Str_Contains (File.ID c) fids \<and> \<not> ignoreLocalUpsert repo l lsf
                       | None \<Rightarrow> False) cus"
  unfolding cloudUpsertsWalk_def
  by (induction cus arbitrary: st) (simp_all add: cloudUpsertStep_Conflicts)

lemma cloudUpsertsWalk_tmp:
  "tmpMergeConflicts (cloudUpsertsWalk repo fids lu lr lsf lf st cus) =
     tmpMergeConflicts st @ filter (\<lambda>c. getFile lu c \<noteq> None) cus"
  unfolding cloudUpsertsWalk_def
  by (induction cus arbitrary: st) (simp_all add: cloudUpsertStep_tmp)


lemma find_app:
  "find P (xs @ ys) = (case find P xs of None \<Rightarrow> find P ys | Some x \<Rightarrow> Some x)"
  by (induction xs) auto

lemma cloudUpsertsWalk_ignore:
  "cloudUpsertIgnore (cloudUpsertsWalk repo fids lu lr lsf lf st cus) =
     (case find (\<lambda>c. ''/.siyuan/syncignore'' = Path c) (rev cus) of
        None \<Rightarrow> cloudUpsertIgnore st | Some c \<Rightarrow> Some c)"
  unfolding cloudUpsertsWalk_def
proof (induction cus arbitrary: st)
  case Nil
  then show ?case by simp
next
  case (Cons a cus)
  show ?case
    by (simp add: Cons.IH cloudUpsertStep_ignore find_app split: option.splits)
qed


lemma cloudRemovesWalk_others:
  "Upserts (cloudRemovesWalk lu st crs) = Upserts st"
  "Conflicts (cloudRemovesWalk lu st crs) = Conflicts st"
  "tmpMergeConflicts (cloudRemovesWalk lu st crs) = tmpMergeConflicts st"
  "cloudUpsertIgnore (cloudRemovesWalk lu st crs) = cloudUpsertIgnore st"
  unfolding cloudRemovesWalk_def
  by (induction crs arbitrary: st) (simp_all split: option.splits)

lemma getFile_None_iff:
  "getFile files file = None \<longleftrightarrow> (\<forall>f \<in> set files. File.ID f \<noteq> File.ID file \<and> Path f \<noteq> Path file)"
  by (induction files) auto

lemma getFile_Some_mem:
  "getFile files file = Some f \<Longrightarrow>
   f \<in> set files \<and> (File.ID f = File.ID file \<or> Path f = Path file)"
  by (induction files) (auto split: if_splits)

section \<open>Conflicts and upserts of the merge\<close>

lemma getFile_same_path:
  "l' \<in> set files \<Longrightarrow> Path l' = Path file \<Longrightarrow> \<exists>l. getFile files file = Some l"
  by (induction files) auto

lemma sync0_merge_Upserts:
  "Upserts (snd (sync0_merge repo ff lf lsf lu0 lr cus crs mr)) =
     Upserts mr @ filter (\<lambda>c. case getFile (filterLocalUpserts lu0 cus) c of
                         Some l \<Rightarrow> Str_Contains (File.ID c) (map File.ID ff) \<and> ignoreLocalUpsert repo l lsf
                       | None \<Rightarrow> getFile lr c = None \<and> \<not> HasSuffix (Path c) ''.tmp''
                                  \<and> \<not> cloudUpsertTooOld lf c) cus"
  by (simp add: sync0_merge_def Let_def cloudRemovesWalk_others cloudUpsertsWalk_Upserts
        split: sum.splits)

lemma sync0_merge_Conflicts:
  "Conflicts (snd (sync0_merge repo ff lf lsf lu0 lr cus crs mr)) =
     Conflicts mr @ filter (\<lambda>c. case getFile (filterLocalUpserts lu0 cus) c of
                         Some l \<Rightarrow> Str_Contains (File.ID c) (map File.ID ff) \<and> \<not> ignoreLocalUpsert repo l lsf
                       | None \<Rightarrow> False) cus"
  by (simp add: sync0_merge_def Let_def cloudRemovesWalk_others cloudUpsertsWalk_Conflicts
        split: sum.splits)

lemma sync0_merge_tmp:
  "tmpMergeConflicts (snd (sync0_merge repo ff lf lsf lu0 lr cus crs mr)) =
     filter (\<lambda>c. getFile (filterLocalUpserts lu0 cus) c \<noteq> None) cus"
  by (simp add: sync0_merge_def Let_def cloudRemovesWalk_others cloudUpsertsWalk_tmp
        split: sum.splits)

lemma sync0_merge_ignore:
  "cloudUpsertIgnore (snd (sync0_merge repo ff lf lsf lu0 lr cus crs mr)) =
     find (\<lambda>c. ''/.siyuan/syncignore'' = Path c) (rev cus)"
  by (simp add: sync0_merge_def Let_def cloudRemovesWalk_others cloudUpsertsWalk_ignore
        split: sum.splits option.splits)

text \<open>
  Claim C1 (as amended). During Sync, every cloud upsert whose path is also that of a
  local upsert left by the skew guard is recorded as a tentative conflict. If its id is
  among the ids of the files downloaded by this sync, it is added to
  \<open>mergeResult.Upserts\<close> when the fold-only comparison of the local upsert against
  the sync base returns true, and to \<open>mergeResult.Conflicts\<close> otherwise. If its id
  is not among them, it is added to neither: it stays a tentative conflict only.
\<close>

theorem merge_conflict_or_upsert:
  assumes "c \<in> set cloudUpserts"
    and "l' \<in> set (filterLocalUpserts localUpserts cloudUpserts)" and "Path l' = Path c"
    and "Upserts mergeResult = []" and "Conflicts mergeResult = []"
    and "st = snd (sync0_merge repo fetchedFiles latestFiles latestSyncFiles localUpserts
                     localRemoves cloudUpserts cloudRemoves mergeResult)"
  shows "\<exists>l. getFile (filterLocalUpserts localUpserts cloudUpserts) c = Some l \<and>
           c \<in> set (tmpMergeConflicts st) \<and>
           (if File.ID c \<in> set (map File.ID fetchedFiles)
            then if ignoreLocalUpsert repo l latestSyncFiles
                 then c \<in> set (Upserts st) \<and> c \<notin> set (Conflicts st)
                 else c \<in> set (Conflicts st) \<and> c \<notin> set (Upserts st)
            else c \<notin> set (Upserts st) \<and> c \<notin> set (Conflicts st))"
proof -
  obtain l where l: "getFile (filterLocalUpserts localUpserts cloudUpserts) c = Some l"
    using getFile_same_path [OF assms(2,3)] by blast
  have "c \<in> set (tmpMergeConflicts st)"
    using assms(1) l by (simp add: assms(6) sync0_merge_tmp)
  moreover have "c \<in> set (Upserts st) \<longleftrightarrow>
      File.ID c \<in> set (map File.ID fetchedFiles) \<and> ignoreLocalUpsert repo l latestSyncFiles"
    using assms(1,4) l by (simp add: assms(6) sync0_merge_Upserts Str_Contains_def)
  moreover have "c \<in> set (Conflicts st) \<longleftrightarrow>
      File.ID c \<in> set (map File.ID fetchedFiles) \<and> \<not> ignoreLocalUpsert repo l latestSyncFiles"
    using assms(1,5) l by (simp add: assms(6) sync0_merge_Conflicts Str_Contains_def)
  ultimately show ?thesis using l by auto
qed

lemma demo_filter: "filterLocalUpserts [demo_local] [demo_cloud] = [demo_local]"
  by (simp add: filterLocalUpserts_def toRemoveLocalUpsertPaths_def cloudUpsertsMap_def
        Str_Contains_def demo_local_def demo_cloud_def)

theorem merge_conflict_or_upsert_witness:
  "demo_cloud \<in> set (Upserts (snd (sync0_merge demo_repo [demo_cloud] [demo_local] [demo_base]
       [demo_local] [] [demo_cloud] [] \<lparr>Upserts = [], Removes = [], Conflicts = []\<rparr>)))
   \<and> demo_cloud \<notin> set (Conflicts (snd (sync0_merge demo_repo [demo_cloud] [demo_local] [demo_base]
       [demo_local] [] [demo_cloud] [] \<lparr>Upserts = [], Removes = [], Conflicts = []\<rparr>)))
   \<and> demo_cloud \<in> set (tmpMergeConflicts (snd (sync0_merge demo_repo [demo_cloud] [demo_local] [demo_base]
       [demo_local] [] [demo_cloud] [] \<lparr>Upserts = [], Removes = [], Conflicts = []\<rparr>)))"
proof -
  have ig: "ignoreLocalUpsert demo_repo demo_local [demo_base]"
    by (simp add: ignoreLocalUpsert_def demo_repo_def demo_local_def demo_base_def HasSuffix_def
     blockNodes_def onlyChangeFoldIAL_def IAL2Map_def AList.delete_eq)
  have g: "getFile (filterLocalUpserts [demo_local] [demo_cloud]) demo_cloud = Some demo_local"
    unfolding demo_filter by (simp add: demo_local_def demo_cloud_def)
  have h1: "demo_cloud \<in> set [demo_cloud]" by simp
  have h2: "demo_local \<in> set (filterLocalUpserts [demo_local] [demo_cloud])"
    unfolding demo_filter by simp
  have h3: "Path demo_local = Path demo_cloud" by (simp add: demo_local_def demo_cloud_def)
  have h4: "Upserts \<lparr>Upserts = [], Removes = [], Conflicts = []\<rparr> = []" by simp
  have h5: "Conflicts \<lparr>Upserts = [], Removes = [], Conflicts = []\<rparr> = []" by simp
  obtain l where l: "getFile (filterLocalUpserts [demo_local] [demo_cloud]) demo_cloud = Some l"
    and r: "demo_cloud \<in> set (tmpMergeConflicts (snd (sync0_merge demo_repo [demo_cloud]
               [demo_local] [demo_base] [demo_local] [] [demo_cloud] []
               \<lparr>Upserts = [], Removes = [], Conflicts = []\<rparr>))) \<and>
           (if File.ID demo_cloud \<in> set (map File.ID [demo_cloud])
            then if ignoreLocalUpsert demo_repo l [demo_base]
                 then demo_cloud \<in> set (Upserts (snd (sync0_merge demo_repo [demo_cloud]
                        [demo_local] [demo_base] [demo_local] [] [demo_cloud] []
                        \<lparr>Upserts = [], Removes = [], Conflicts = []\<rparr>)))
                    \<and> demo_cloud \<notin> set (Conflicts (snd (sync0_merge demo_repo [demo_cloud]
                        [demo_local] [demo_base] [demo_local] [] [demo_cloud] []
                        \<lparr>Upserts = [], Removes = [], Conflicts = []\<rparr>)))
                 else demo_cloud \<in> set (Conflicts (snd (sync0_merge demo_repo [demo_cloud]
                        [demo_local] [demo_base] [demo_local] [] [demo_cloud] []
                        \<lparr>Upserts = [], Removes = [], Conflicts = []\<rparr>)))
                    \<and> demo_cloud \<notin> set (Upserts (snd (sync0_merge demo_repo [demo_cloud]
                        [demo_local] [demo_base] [demo_local] [] [demo_cloud] []
                        \<lparr>Upserts = [], Removes = [], Conflicts = []\<rparr>)))
            else demo_cloud \<notin> set (Upserts (snd (sync0_merge demo_repo [demo_cloud]
                        [demo_local] [demo_base] [demo_local] [] [demo_cloud] []
                        \<lparr>Upserts = [], Removes = [], Conflicts = []\<rparr>)))
                    \<and> demo_cloud \<notin> set (Conflicts (snd (sync0_merge demo_repo [demo_cloud]
                        [demo_local] [demo_base] [demo_local] [] [demo_cloud] []
                        \<lparr>Upserts = [], Removes = [], Conflicts = []\<rparr>))))"
    using merge_conflict_or_upsert [OF h1 h2 h3 h4 h5 refl] by blast
  from l g have "l = demo_local" by simp
  with r ig show ?thesis by simp
qed

text \<open>
  The claim as first stated asks for a real conflict whenever the cloud upsert is not
  demoted to an upsert. A cloud upsert that was not downloaded by this sync is a
  tentative conflict and no real one.
\<close>

theorem tentative_conflict_not_fetched_counterexample:
  "demo_cloud \<in> set [demo_cloud] \<and> demo_local \<in> set (filterLocalUpserts [demo_local] [demo_cloud])
   \<and> Path demo_local = Path demo_cloud
   \<and> \<not> (File.ID demo_cloud \<in> set (map File.ID [])
         \<and> ignoreLocalUpsert demo_repo demo_local [demo_base])
   \<and> demo_cloud \<notin> set (Conflicts (snd (sync0_merge demo_repo [] [demo_local] [demo_base]
       [demo_local] [] [demo_cloud] [] \<lparr>Upserts = [], Removes = [], Conflicts = []\<rparr>)))"
proof -
  have "Conflicts (snd (sync0_merge demo_repo [] [demo_local] [demo_base]
       [demo_local] [] [demo_cloud] [] \<lparr>Upserts = [], Removes = [], Conflicts = []\<rparr>)) = []"
    by (simp add: sync0_merge_Conflicts Str_Contains_def split: option.splits)
  then show ?thesis
    unfolding demo_filter by (simp add: demo_local_def demo_cloud_def)
qed

section \<open>Removes of the merge\<close>





section \<open>Stale cloud upserts\<close>

lemma int64_newer_than_7min:
  fixes l c :: int64
  assumes "sint c + 420000 < 2 ^ 63"
  shows "c + 420000 <s l \<longleftrightarrow> 420000 < sint l - sint c"
proof -
  have k: "sint (420000 :: int64) = 420000" by simp
  have lo: "- (2 ^ 63) \<le> sint c" using sint_ge [of c] by simp
  have "sint (c + 420000) = signed_take_bit 63 (sint c + 420000)"
    using sint_word_ariths(1) [of c "420000 :: int64"] k by simp
  also have "\<dots> = sint c + 420000"
    using assms lo by (intro signed_take_bit_int_eq_self) auto
  finally show ?thesis by (auto simp add: word_sless_alt)
qed

text \<open>
  A cloud upsert that matches neither a local upsert nor a local remove is added to
  \<open>mergeResult.Upserts\<close> exactly when its path does not end in \<open>.tmp\<close> and the file
  known locally at the path is not more than 420000 ms newer, provided the sum
  \<open>cloudUpsert.Updated + 7*60*1000\<close> stays below \<open>2^63\<close>.
\<close>

lemma cloud_upsert_without_local_change:
  assumes "c \<in> set cloudUpserts"
    and "getFile (filterLocalUpserts localUpserts cloudUpserts) c = None"
    and "getFile localRemoves c = None"
    and "Upserts mergeResult = []"
    and "sint (Updated c) + 420000 < 2 ^ 63"
  shows "c \<in> set (Upserts (snd (sync0_merge repo fetchedFiles latestFiles latestSyncFiles
                       localUpserts localRemoves cloudUpserts cloudRemoves mergeResult)))
         \<longleftrightarrow> \<not> HasSuffix (Path c) ''.tmp'' \<and>
             (case latestFileMap latestFiles (Path c) of
                None \<Rightarrow> True
              | Some localFile \<Rightarrow> sint (Updated localFile) - sint (Updated c) \<le> 420000)"
proof -
  have "cloudUpsertTooOld latestFiles c \<longleftrightarrow>
          (case latestFileMap latestFiles (Path c) of
             None \<Rightarrow> False
           | Some localFile \<Rightarrow> 420000 < sint (Updated localFile) - sint (Updated c))"
    unfolding cloudUpsertTooOld_def
    using int64_newer_than_7min [OF assms(5)] by (simp split: option.splits)
  then show ?thesis
    using assms(1-4) by (auto simp add: sync0_merge_Upserts split: option.splits)
qed

text \<open>
  Claim C5. A cloud upsert that matches neither a local upsert nor a local remove should
  be added to \<open>mergeResult.Upserts\<close> when its path does not end in \<open>.tmp\<close> and the
  file known locally is not more than 420000 ms newer. For a cloud timestamp within
  420000 of the largest \<open>int64\<close> the code does not: the sum
  \<open>cloudUpsert.Updated + 7*60*1000\<close> wraps around to a negative number, the local file
  counts as newer, and the cloud upsert is skipped.
\<close>

theorem cloud_upsert_skipped_on_overflow:
  "getFile (filterLocalUpserts [] [demo_cloud_far]) demo_cloud_far = None
   \<and> getFile [] demo_cloud_far = None
   \<and> \<not> HasSuffix (Path demo_cloud_far) ''.tmp''
   \<and> latestFileMap [demo_local_known] (Path demo_cloud_far) = Some demo_local_known
   \<and> sint (Updated demo_local_known) - sint (Updated demo_cloud_far) \<le> 420000
   \<and> Updated demo_cloud_far + 7 * 60 * 1000 = - 9223372036854355809
   \<and> Upserts (snd (sync0_merge demo_repo [] [demo_local_known] [] [] [] [demo_cloud_far] []
        \<lparr>Upserts = [], Removes = [], Conflicts = []\<rparr>)) = []"
  by (simp add: sync0_merge_Upserts filterLocalUpserts_def toRemoveLocalUpsertPaths_def
        cloudUpsertTooOld_def latestFileMap_def HasSuffix_def word_sless_alt
        demo_cloud_far_def demo_local_known_def)

section \<open>The seq-num pointers\<close>

lemma getSeqNumLatest_ref_removed:
  "removed (getSeqNumLatest_ref r refPath) =
     removed r @ (if HasPrefix refPath ''latest-'' \<and>
                     length (Split (TrimPrefix refPath ''latest-'') (CHR ''-'')) < 2
                  then [''refs/'' @ refPath] else [])"
  by (auto simp add: getSeqNumLatest_ref_def Let_def split: list.splits)

lemma getSeqNumLatest_foldl_removed:
  "removed (foldl getSeqNumLatest_ref r refs) =
     removed r @ map (\<lambda>refPath. ''refs/'' @ refPath)
       (filter (\<lambda>refPath. HasPrefix refPath ''latest-'' \<and>
                  length (Split (TrimPrefix refPath ''latest-'') (CHR ''-'')) < 2) refs)"
  by (induction refs arbitrary: r) (simp_all add: getSeqNumLatest_ref_removed)

text \<open>
  Claim C9. Reading the seq-num pointers changes the remote: when the listing of
  \<open>refs/\<close> succeeds, \<open>getSeqNumLatest\<close> calls \<open>RemoveObject\<close> on \<open>refs/path\<close> for exactly
  the listed paths that start with \<open>latest-\<close> and whose remainder splits at \<open>-\<close> into
  fewer than two parts, in the order of the listing.
\<close>

theorem getSeqNumLatest_removes_malformed:
  assumes "ListObjects cloud ''refs/'' = Inr refs"
  shows "removed (getSeqNumLatest cloud) =
           map (\<lambda>refPath. ''refs/'' @ refPath)
             (filter (\<lambda>refPath. HasPrefix refPath ''latest-'' \<and>
                        length (Split (TrimPrefix refPath ''latest-'') (CHR ''-'')) < 2) refs)
         \<and> getSeqNumLatest_effects cloud =
             CloudList ''refs/'' # map CloudRemove (removed (getSeqNumLatest cloud))"
  using assms
  by (simp add: getSeqNumLatest_def getSeqNumLatest_foldl_removed getSeqNumLatest_effects_def)

theorem getSeqNumLatest_removes_malformed_witness:
  "removed (getSeqNumLatest demo_s3) = [''refs/latest-sync'', ''refs/latest-x'']
   \<and> getSeqNumLatest_effects demo_s3 =
       [CloudList ''refs/'', CloudRemove ''refs/latest-sync'', CloudRemove ''refs/latest-x'']"
proof -
  have h: "ListObjects demo_s3 ''refs/'' =
             Inr [''latest'', ''latest-sync'', ''latest-1-'' @ demo_hashA,
                  ''latest-2-'' @ demo_hashB, ''latest-x'']"
    by (simp add: demo_s3_def)
  have e: "map (\<lambda>refPath. ''refs/'' @ refPath)
             (filter (\<lambda>refPath. HasPrefix refPath ''latest-'' \<and>
                        length (Split (TrimPrefix refPath ''latest-'') (CHR ''-'')) < 2)
                [''latest'', ''latest-sync'', ''latest-1-'' @ demo_hashA,
                 ''latest-2-'' @ demo_hashB, ''latest-x''])
           = [''refs/latest-sync'', ''refs/latest-x'']"
    by code_simp
  from getSeqNumLatest_removes_malformed [OF h] show ?thesis
    unfolding e by simp
qed

section \<open>The cloud latest\<close>

text \<open>
  On a backend of the S3 family or the vendor's, the removals of the scan are among the
  requests of \<open>downloadCloudLatest\<close>, which only reads the cloud latest.
\<close>

lemma downloadCloudLatest_removes_malformed:
  assumes "isCloudS3 cloud \<or> isCloudSiYuan cloud"
    and "downloadCloudObject cloud store ''refs/latest'' = Inr data"
    and "length (TrimSpace data) = 40"
    and "downloadCloudLatest cloud store = (n, cloudLatest, err, effects)"
    and "x \<in> set (removed (getSeqNumLatest cloud))"
  shows "CloudRemove x \<in> set effects"
  using assms
  by (auto simp add: downloadCloudLatest_def Let_def getSeqNumLatest_effects_def
        split: prod.splits option.splits if_splits)


text \<open>
  Claim C7. When the payload of \<open>refs/latest\<close>, with the white space around it cut, has
  a length other than 40, \<open>downloadCloudLatest\<close> answers with the empty index and
  \<open>ErrCloudObjectNotFound\<close>, after no other request than the download of the ref.
\<close>

theorem malformed_ref_payload_is_not_found:
  assumes "downloadCloudObject cloud store ''refs/latest'' = Inr data"
    and "length (TrimSpace data) \<noteq> 40"
  shows "downloadCloudLatest cloud store =
           (0, emptyIndex, Some ErrCloudObjectNotFound, [CloudDownload ''refs/latest''])"
  using assms by (simp add: downloadCloudLatest_def Let_def)

theorem malformed_ref_payload_is_not_found_witness:
  "downloadCloudLatest demo_malformed demo_store =
     (0, emptyIndex, Some ErrCloudObjectNotFound, [CloudDownload ''refs/latest''])"
proof -
  have h1: "downloadCloudObject demo_malformed demo_store ''refs/latest'' = Inr ''abc''"
    by code_simp
  have h2: "length (TrimSpace ''abc'') \<noteq> 40"
    by code_simp
  show ?thesis by (rule malformed_ref_payload_is_not_found [OF h1 h2])
qed

lemma getSeqNumLatest_ref_max:
  "maxSeqNum r \<le> maxSeqNum (getSeqNumLatest_ref r refPath)"
  by (auto simp add: getSeqNumLatest_ref_def Let_def split: list.splits)

lemma getSeqNumLatest_ref_ge:
  "HasPrefix refPath ''latest-'' \<Longrightarrow>
   Split (TrimPrefix refPath ''latest-'') (CHR ''-'') = part0 # part1 # parts \<Longrightarrow>
   Atoi part0 \<le> maxSeqNum (getSeqNumLatest_ref r refPath)"
  by (auto simp add: getSeqNumLatest_ref_def Let_def split: list.splits)

lemma getSeqNumLatest_foldl_mono:
  "maxSeqNum r \<le> maxSeqNum (foldl getSeqNumLatest_ref r refs)"
proof (induction refs arbitrary: r)
  case Nil
  then show ?case by simp
next
  case (Cons a refs)
  have "maxSeqNum r \<le> maxSeqNum (getSeqNumLatest_ref r a)" by (rule getSeqNumLatest_ref_max)
  also have "\<dots> \<le> maxSeqNum (foldl getSeqNumLatest_ref (getSeqNumLatest_ref r a) refs)"
    by (rule Cons.IH)
  finally show ?case by simp
qed

lemma getSeqNumLatest_foldl_ge:
  "refPath \<in> set refs \<Longrightarrow> HasPrefix refPath ''latest-'' \<Longrightarrow>
   Split (TrimPrefix refPath ''latest-'') (CHR ''-'') = part0 # part1 # parts \<Longrightarrow>
   Atoi part0 \<le> maxSeqNum (foldl getSeqNumLatest_ref r refs)"
proof (induction refs arbitrary: r)
  case Nil
  then show ?case by simp
next
  case (Cons a refs)
  show ?case
  proof (cases "refPath = a")
    case True
    have "Atoi part0 \<le> maxSeqNum (getSeqNumLatest_ref r a)"
      using Cons.prems True by (auto intro: getSeqNumLatest_ref_ge)
    also have "\<dots> \<le> maxSeqNum (foldl getSeqNumLatest_ref (getSeqNumLatest_ref r a) refs)"
      by (rule getSeqNumLatest_foldl_mono)
    finally show ?thesis by simp
  next
    case False
    with Cons show ?thesis by auto
  qed
qed

lemma getSeqNumLatest_ref_id:
  "id' (getSeqNumLatest_ref r refPath) = id' r \<and>
     maxSeqNum (getSeqNumLatest_ref r refPath) = maxSeqNum r
   \<or> (\<exists>part0 part1 parts. HasPrefix refPath ''latest-'' \<and>
         Split (TrimPrefix refPath ''latest-'') (CHR ''-'') = part0 # part1 # parts \<and>
         maxSeqNum (getSeqNumLatest_ref r refPath) = Atoi part0 \<and>
         id' (getSeqNumLatest_ref r refPath) = part1)"
  by (auto simp add: getSeqNumLatest_ref_def Let_def split: list.splits)

lemma getSeqNumLatest_foldl_id:
  "id' (foldl getSeqNumLatest_ref r refs) = id' r \<and>
     maxSeqNum (foldl getSeqNumLatest_ref r refs) = maxSeqNum r
   \<or> (\<exists>refPath \<in> set refs. \<exists>part0 part1 parts. HasPrefix refPath ''latest-'' \<and>
         Split (TrimPrefix refPath ''latest-'') (CHR ''-'') = part0 # part1 # parts \<and>
         maxSeqNum (foldl getSeqNumLatest_ref r refs) = Atoi part0 \<and>
         id' (foldl getSeqNumLatest_ref r refs) = part1)"
proof (induction refs arbitrary: r rule: rev_induct)
  case Nil
  then show ?case by simp
next
  case (snoc a refs)
  show ?case
    using snoc.IH [of r] getSeqNumLatest_ref_id [of "foldl getSeqNumLatest_ref r refs" a]
    by (simp del: split_paired_Ex) metis
qed

lemma getSeqNumLatest_is_max:
  assumes "ListObjects cloud ''refs/'' = Inr refs"
  shows "(\<forall>refPath \<in> set refs. \<forall>part0 part1 parts.
            HasPrefix refPath ''latest-'' \<and>
            Split (TrimPrefix refPath ''latest-'') (CHR ''-'') = part0 # part1 # parts
            \<longrightarrow> Atoi part0 \<le> maxSeqNum (getSeqNumLatest cloud))
         \<and> (id' (getSeqNumLatest cloud) \<noteq> '''' \<longrightarrow>
              (\<exists>refPath \<in> set refs. \<exists>part0 parts. HasPrefix refPath ''latest-'' \<and>
                 Split (TrimPrefix refPath ''latest-'') (CHR ''-'')
                   = part0 # id' (getSeqNumLatest cloud) # parts \<and>
                 maxSeqNum (getSeqNumLatest cloud) = Atoi part0))"
proof -
  let ?r0 = "\<lparr>id' = '''', maxSeqNum = 0, seqNumLatests = [], removed = []\<rparr>"
  have g: "getSeqNumLatest cloud = foldl getSeqNumLatest_ref ?r0 refs"
    using assms by (simp add: getSeqNumLatest_def)
  show ?thesis
    unfolding g
    using getSeqNumLatest_foldl_id [of ?r0 refs]
    by (auto intro: getSeqNumLatest_foldl_ge)
qed



section \<open>The list of published indexes\<close>

lemma dedupIndexes_foldl:
  assumes "set added = cloud_Index.ID ` set tmp" and "distinct (map cloud_Index.ID tmp)"
  shows "case foldl (\<lambda>(found, tmp, added) index.
              (found \<or> cloud_Index.ID index = latestID,
               if cloud_Index.ID index \<in> set added then tmp else tmp @ [index],
               if cloud_Index.ID index \<in> set added then added
               else cloud_Index.ID index # added))
            (found, tmp, added) indexes of
          (found', tmp', added') \<Rightarrow>
            set added' = cloud_Index.ID ` set tmp' \<and> distinct (map cloud_Index.ID tmp') \<and>
            cloud_Index.ID ` set tmp' = cloud_Index.ID ` (set tmp \<union> set indexes) \<and>
            (found' \<longleftrightarrow> found \<or> latestID \<in> cloud_Index.ID ` set indexes)"
  using assms
proof (induction indexes arbitrary: found tmp added)
  case Nil
  then show ?case by simp
next
  case (Cons a indexes)
  show ?case
  proof (cases "cloud_Index.ID a \<in> set added")
    case True
    then show ?thesis
      using Cons.IH [of added tmp "found \<or> cloud_Index.ID a = latestID"] Cons.prems
      by (auto split: prod.splits)
  next
    case False
    then show ?thesis
      using Cons.IH [of "cloud_Index.ID a # added" "tmp @ [a]"
                        "found \<or> cloud_Index.ID a = latestID"] Cons.prems
      by (auto split: prod.splits)
  qed
qed

lemma dedupIndexes_props:
  "distinct (map cloud_Index.ID (fst (snd (dedupIndexes latestID indexes))))"
  "cloud_Index.ID ` set (fst (snd (dedupIndexes latestID indexes))) = cloud_Index.ID ` set indexes"
  "fst (dedupIndexes latestID indexes) \<longleftrightarrow> latestID \<in> cloud_Index.ID ` set indexes"
  using dedupIndexes_foldl [where added = "[]" and tmp = "[]" and found = False
                              and latestID = latestID and indexes = indexes]
  by (auto simp add: dedupIndexes_def split: prod.splits)

lemma dedupIndexes_mem:
  "x \<in> set (fst (snd (dedupIndexes latestID indexes))) \<Longrightarrow>
   cloud_Index.ID x \<in> cloud_Index.ID ` set indexes"
  using dedupIndexes_props(2) [of latestID indexes] by blast

text \<open>
  Claim C3 (as amended). When \<open>updateCloudIndexesV2\<close> succeeds for a new local latest L
  and uploads \<open>indexes-v2.json\<close>, the list it uploads has no two entries with the same id
  and its first entry has the id of L.
\<close>

theorem uploaded_indexes_distinct_with_latest_first:
  assumes "updateCloudIndexesV2 cloud store latest = (downloadBytes, uploadBytes, None, effects)"
    and "CloudUpload ''indexes-v2.json'' \<in> set effects"
  shows "\<exists>indexes marshalled.
           MarshalIndentJSON store indexes = Inr marshalled \<and>
           effects = [CloudDownload ''indexes-v2.json'',
                      WriteFile ''indexes-v2.json'' (EncodeAll store marshalled),
                      CloudUpload ''indexes-v2.json''] \<and>
           indexes \<noteq> [] \<and>
           cloud_Index.ID (hd indexes) = Index.ID latest \<and>
           distinct (map cloud_Index.ID indexes)"
proof -
  define head where "head = \<lparr>cloud_Index.ID = Index.ID latest,
                                  SystemID = Index.SystemID latest,
                                  SystemName = Index.SystemName latest,
                                  SystemOS = Index.SystemOS latest\<rparr>"
  have "\<exists>rest marshalled.
          MarshalIndentJSON store (head # rest) = Inr marshalled \<and>
          effects = [CloudDownload ''indexes-v2.json'',
                     WriteFile ''indexes-v2.json'' (EncodeAll store marshalled),
                     CloudUpload ''indexes-v2.json''] \<and>
          Index.ID latest \<notin> cloud_Index.ID ` set rest \<and>
          distinct (map cloud_Index.ID rest)"
    using assms unfolding head_def
    by (auto simp add: updateCloudIndexesV2_def Let_def dedupIndexes_props(1,3)
          split: sum.splits if_splits option.splits prod.splits
          intro!: exI dest: dedupIndexes_mem)
  then obtain rest marshalled where
    "MarshalIndentJSON store (head # rest) = Inr marshalled"
    "effects = [CloudDownload ''indexes-v2.json'',
                WriteFile ''indexes-v2.json'' (EncodeAll store marshalled),
                CloudUpload ''indexes-v2.json'']"
    "Index.ID latest \<notin> cloud_Index.ID ` set rest"
    "distinct (map cloud_Index.ID rest)"
    by blast
  moreover have "cloud_Index.ID head = Index.ID latest" by (simp add: head_def)
  ultimately show ?thesis
    by (intro exI [of _ "head # rest"] exI [of _ marshalled]) auto
qed

theorem uploaded_indexes_distinct_with_latest_first_witness:
  "\<exists>indexes marshalled.
     MarshalIndentJSON demo_store indexes = Inr marshalled \<and>
     [CloudDownload ''indexes-v2.json'', WriteFile ''indexes-v2.json'' ''CBA'',
      CloudUpload ''indexes-v2.json'']
       = [CloudDownload ''indexes-v2.json'',
          WriteFile ''indexes-v2.json'' (EncodeAll demo_store marshalled),
          CloudUpload ''indexes-v2.json''] \<and>
     indexes \<noteq> [] \<and>
     cloud_Index.ID (hd indexes) = Index.ID demo_indexC \<and>
     distinct (map cloud_Index.ID indexes)"
proof -
  have r: "updateCloudIndexesV2 demo_s3 demo_store demo_indexC =
             (2, 7, None, [CloudDownload ''indexes-v2.json'',
                           WriteFile ''indexes-v2.json'' ''CBA'',
                           CloudUpload ''indexes-v2.json''])"
    by code_simp
  have m: "CloudUpload ''indexes-v2.json''
             \<in> set [CloudDownload ''indexes-v2.json'', WriteFile ''indexes-v2.json'' ''CBA'',
                     CloudUpload ''indexes-v2.json'']"
    by simp
  show ?thesis by (rule uploaded_indexes_distinct_with_latest_first [OF r m])
qed

text \<open>
  When the id of L is already listed, nothing is uploaded: the remote file stays as it
  is, whatever its first entry and its duplicates.
\<close>

lemma indexes_left_when_latest_listed:
  assumes "DownloadObject cloud ''indexes-v2.json'' = Inr data0"
    and "DecodeAll store data0 = Inr data" and "0 < length data"
    and "UnmarshalIndexes store data = (indexes, err)"
    and "Index.ID latest \<in> cloud_Index.ID ` set indexes"
  shows "updateCloudIndexesV2 cloud store latest =
           (len64 data0, 0, err, [CloudDownload ''indexes-v2.json''])"
  using assms
  by (simp add: updateCloudIndexesV2_def Let_def dedupIndexes_props(3))

text \<open>
  The claim as first stated fails for a remote list B, A and the local latest A: the
  update succeeds, uploads nothing, and the first entry of the remote list is still
  B.
\<close>

theorem latest_listed_not_first_counterexample:
  "updateCloudIndexesV2 demo_s3 demo_store demo_indexA
     = (2, 0, None, [CloudDownload ''indexes-v2.json''])
   \<and> DownloadObject demo_s3 ''indexes-v2.json'' = Inr ''BA''
   \<and> DecodeAll demo_store ''BA'' = Inr ''BA''
   \<and> UnmarshalIndexes demo_store ''BA'' = ([demo_entry demo_hashB, demo_entry demo_hashA], None)
   \<and> cloud_Index.ID (hd [demo_entry demo_hashB, demo_entry demo_hashA]) \<noteq> Index.ID demo_indexA"
  by code_simp

section \<open>The storage size check of Sync\<close>






section \<open>SyncDownload with no cloud latest\<close>

text \<open>
  When the cloud latest has no id, \<open>SyncDownload\<close> returns at once with an empty merge
  result, having asked the remote for nothing but what \<open>downloadCloudLatest\<close> asks; the
  error it returns is the one \<open>downloadCloudLatest\<close> left: none when \<open>refs/latest\<close> is
  absent.
\<close>

lemma SyncDownload_empty_remote:
  assumes "tryLockCloud cloud = None" and "Latest store = Inr latest"
    and "downloadCloudLatest cloud store = (n, cloudLatest, err, effects)"
    and "err = None \<or> err = Some ErrCloudObjectNotFound"
    and "Index.ID cloudLatest = ''''"
  shows "SyncDownload cloud store repo =
           (Some \<lparr>Upserts = [], Removes = [], Conflicts = []\<rparr>, err,
            [TryLockCloud] @ effects @ [UnlockCloud])"
  using assms by (auto simp add: SyncDownload_def Let_def)

lemma SyncDownload_no_ref:
  assumes "tryLockCloud cloud = None" and "Latest store = Inr latest"
    and "DownloadObject cloud ''refs/latest'' = Inl ErrCloudObjectNotFound"
  shows "SyncDownload cloud store repo =
           (Some \<lparr>Upserts = [], Removes = [], Conflicts = []\<rparr>, None,
            [TryLockCloud, CloudDownload ''refs/latest'', UnlockCloud])"
proof -
  have "downloadCloudLatest cloud store = (0, emptyIndex, None, [CloudDownload ''refs/latest''])"
    using assms(3) by (simp add: downloadCloudLatest_def downloadCloudObject_def)
  from SyncDownload_empty_remote [OF assms(1,2) this] show ?thesis
    by (simp add: emptyIndex_def)
qed

text \<open>
  Claim C10. With no latest index on the remote, \<open>SyncDownload\<close> should return success
  at once with an empty merge result. When \<open>refs/latest\<close> holds a payload of three
  characters, the cloud latest is the empty index, and \<open>SyncDownload\<close> returns at once
  with an empty merge result, but with the error \<open>ErrCloudObjectNotFound\<close> that it
  meant to pass over.
\<close>

theorem SyncDownload_malformed_ref_returns_error:
  "SyncDownload demo_malformed demo_store demo_sync_repo =
     (Some \<lparr>Upserts = [], Removes = [], Conflicts = []\<rparr>,
      Some ErrCloudObjectNotFound,
      [TryLockCloud, CloudDownload ''refs/latest'', UnlockCloud])
   \<and> fst (snd (downloadCloudLatest demo_malformed demo_store)) = emptyIndex
   \<and> Index.ID emptyIndex = ''''"
  by code_simp

section \<open>From sync to the merge\<close>

text \<open>
  A \<open>sync\<close> that succeeds either returns the empty merge result or the state that
  \<open>sync0\<close> reached, and the state of a \<open>sync0\<close> that succeeds is the state of its merge,
  run on the diffs of the local latest against the last sync and of the cloud latest
  against the local latest.
\<close>

lemma sync0_success_state:
  assumes "sync0 cloud store repo fetchedFiles cloudLatest latest mergeResult = (None, st, effects)"
  shows "\<exists>cloudLatestFiles latestFiles latestSyncFiles.
           getFiles repo (Files cloudLatest) = Inr cloudLatestFiles \<and>
           getFiles repo (Files latest) = Inr latestFiles \<and>
           getFiles repo (Files (latestSync repo)) = Inr latestSyncFiles \<and>
           sync0_merge (Repo.truncate repo) fetchedFiles latestFiles latestSyncFiles
             (fst (diffUpsertRemove repo latestFiles latestSyncFiles False))
             (snd (diffUpsertRemove repo latestFiles latestSyncFiles False))
             (fst (if '''' \<noteq> Index.ID cloudLatest
                   then diffUpsertRemove repo cloudLatestFiles latestFiles True else ([], [])))
             (snd (if '''' \<noteq> Index.ID cloudLatest
                   then diffUpsertRemove repo cloudLatestFiles latestFiles True else ([], [])))
             mergeResult = (None, st)"
  using assms
  by (auto simp add: sync0_def Let_def
        split: sum.splits list.splits option.splits prod.splits if_splits)

lemma sync_success_state:
  assumes "sync cloud store repo = (mergeResult, None, effects)"
  shows "mergeResult = \<lparr>Upserts = [], Removes = [], Conflicts = []\<rparr>
         \<or> (\<exists>latest cloudLatest fetchedFiles st effects0.
               Latest store = Inr latest \<and>
               fst (snd (downloadCloudLatest cloud store)) = cloudLatest \<and>
               sync0 cloud store repo fetchedFiles cloudLatest latest
                 \<lparr>Upserts = [], Removes = [], Conflicts = []\<rparr> = (None, st, effects0) \<and>
               mergeResult = MergeResult.truncate st)"
  using assms
  by (auto simp add: sync_def Let_def
        split: sum.splits list.splits option.splits prod.splits if_splits)

end
